theory Spec2Isabelle
  imports Main "HOL-Library.Sublist"
begin

section \<open>The unit-of-work registry of timrourke/datamapper\<close>

text \<open>
  The repository holds one component, the unit-of-work registry, in several revisions of
  the same file. Two of them are embedded here, each from its own source text:

  \<^item> the \<^emph>\<open>Entity revision\<close> (the first file of \<^verbatim>\<open>src/unnamed/part_002\<close>, the one
    \<^verbatim>\<open>src/unit_of_work_test.go\<close> exercises): \<^verbatim>\<open>assertEntityHasID\<close>,
    \<^verbatim>\<open>assertEntityNotRegisteredAs\<close>, \<^verbatim>\<open>RegisterNew\<close>, \<^verbatim>\<open>RegisterDirty\<close>,
    \<^verbatim>\<open>RegisterDeleted\<close>, over the maps \<^verbatim>\<open>newObjects\<close>, \<^verbatim>\<open>dirtyObjects\<close>,
    \<^verbatim>\<open>deletedObjects\<close>;
  \<^item> the \<^emph>\<open>Model revision\<close> (\<^verbatim>\<open>src/unit_of_work.go\<close>, exercised by
    \<^verbatim>\<open>src/unnamed/part_001\<close>): \<^verbatim>\<open>RegisterNew\<close>, \<^verbatim>\<open>RegisterDirty\<close>,
    \<^verbatim>\<open>RegisterRemoved\<close> with every check written inline, over \<^verbatim>\<open>newObjects\<close>,
    \<^verbatim>\<open>dirtyObjects\<close>, \<^verbatim>\<open>removedObjects\<close>; and the helper
    \<^verbatim>\<open>assertModelNotRegisteredAs\<close> of the second file of \<^verbatim>\<open>src/unnamed/part_002\<close>.

  Names of the Model revision that clash with the Entity revision carry the suffix
  \<open>_Model\<close>.
\<close>

subsection \<open>Entities, errors, panics\<close>

text \<open>
  \<^verbatim>\<open>type Entity interface { GetID() string }\<close> (and the identical \<^verbatim>\<open>Model\<close>). An interface
  value is a reference to some object together with its method. The registry calls
  \<^verbatim>\<open>GetID\<close> and nothing else, and stores the reference; so an entity is modelled by the
  reference it is (\<open>ref\<close>, an address: two entities may be different references and
  still have the same identity) and the string its \<^verbatim>\<open>GetID\<close> returns. \<^verbatim>\<open>GetID\<close> is taken to
  be a pure accessor on a non-nil receiver: every call on the same entity returns the same
  string.
\<close>

datatype Entity = Entity (ref: nat) (GetID: string)

type_synonym Model = Entity

text \<open>
  The Go functions return a value of the one type \<^verbatim>\<open>error\<close>, built by \<^verbatim>\<open>errors.Errorf\<close>.
  The two kinds of error of the specification are told apart by the branch that builds
  them: \<open>MissingIdentity\<close> is the error of the "has no ID" branch, \<open>ConflictingState\<close>
  the error of an "already registered as" branch.

  \<^item> \<open>MissingIdentity fmt e\<close>: the message is \<open>fmt\<close> followed by the \<^verbatim>\<open>%+v\<close> rendering of
    the entity \<open>e\<close> (which depends on the entity's concrete Go type and is left
    unrendered);
  \<^item> \<open>ConflictingState msg\<close>: the message is \<open>msg\<close>, the format with the identity and
    the category inserted at \<^verbatim>\<open>%s\<close>.
\<close>

datatype error = MissingIdentity string Entity | ConflictingState string

text \<open>
  A call either returns or panics (\<^verbatim>\<open>panic(fmt.Sprintf(...))\<close>); the panic carries its
  message.
\<close>

datatype 'a result = Panic string | Return 'a

subsection \<open>The registry\<close>

text \<open>
  \<^verbatim>\<open>type UnitOfWork struct\<close>: three Go maps from identity to entity reference. The registries
  considered are those whose three maps are allocated, as \<^verbatim>\<open>NewUnitOfWork\<close> builds them.
  The Model revision names the third map \<^verbatim>\<open>removedObjects\<close>; it is the same field of the
  same struct, and is the field \<open>deletedObjects\<close> here.

  The methods mutate the maps of their receiver in place; the model passes the registry
  in and returns the registry after the call beside the returned error (\<open>None\<close> is
  \<^verbatim>\<open>nil\<close>).
\<close>

record UnitOfWork =
  newObjects :: "string \<rightharpoonup> Entity"
  dirtyObjects :: "string \<rightharpoonup> Entity"
  deletedObjects :: "string \<rightharpoonup> Entity"

definition NewUnitOfWork :: UnitOfWork where
  "NewUnitOfWork =
     \<lparr>newObjects = Map.empty, dirtyObjects = Map.empty, deletedObjects = Map.empty\<rparr>"

subsection \<open>The Entity revision\<close>

definition assertEntityHasID :: "UnitOfWork \<Rightarrow> Entity \<Rightarrow> error option" where
  "assertEntityHasID unit entity =
     (if GetID entity = ''''
      then Some (MissingIdentity ''Registering entity failed: entity has no ID: '' entity)
      else None)"

definition assertEntityNotRegisteredAs ::
    "UnitOfWork \<Rightarrow> Entity \<Rightarrow> string \<Rightarrow> error option result" where
  "assertEntityNotRegisteredAs unit entity registeredAs =
     (case (if registeredAs = ''dirty'' then Return (dirtyObjects unit)
            else if registeredAs = ''deleted'' then Return (deletedObjects unit)
            else if registeredAs = ''new'' then Return (newObjects unit)
            else Panic (''unknown registry for state of persistence: '' @
                        [CHR 0x22] @ registeredAs @ [CHR 0x22])) of
        Panic msg \<Rightarrow> Panic msg
      | Return registry \<Rightarrow>
          (case registry (GetID entity) of
             Some found \<Rightarrow>
               Return (Some (ConflictingState
                 (''Registering entity failed: entity with ID '' @ [CHR 0x22] @
                  GetID entity @ [CHR 0x22] @ '' is already registered as '' @
                  registeredAs)))
           | None \<Rightarrow> Return None))"

definition RegisterNew :: "UnitOfWork \<Rightarrow> Entity \<Rightarrow> (error option \<times> UnitOfWork) result" where
  "RegisterNew unit entity =
     (case assertEntityHasID unit entity of
        Some err \<Rightarrow> Return (Some err, unit)
      | None \<Rightarrow>
     (case assertEntityNotRegisteredAs unit entity ''dirty'' of
        Panic msg \<Rightarrow> Panic msg
      | Return (Some err) \<Rightarrow> Return (Some err, unit)
      | Return None \<Rightarrow>
     (case assertEntityNotRegisteredAs unit entity ''deleted'' of
        Panic msg \<Rightarrow> Panic msg
      | Return (Some err) \<Rightarrow> Return (Some err, unit)
      | Return None \<Rightarrow>
     (case assertEntityNotRegisteredAs unit entity ''new'' of
        Panic msg \<Rightarrow> Panic msg
      | Return (Some err) \<Rightarrow> Return (Some err, unit)
      | Return None \<Rightarrow>
          Return (None, unit\<lparr>newObjects := (newObjects unit)(GetID entity \<mapsto> entity)\<rparr>)))))"

definition RegisterDirty :: "UnitOfWork \<Rightarrow> Entity \<Rightarrow> (error option \<times> UnitOfWork) result" where
  "RegisterDirty unit entity =
     (case assertEntityHasID unit entity of
        Some err \<Rightarrow> Return (Some err, unit)
      | None \<Rightarrow>
     (case assertEntityNotRegisteredAs unit entity ''deleted'' of
        Panic msg \<Rightarrow> Panic msg
      | Return (Some err) \<Rightarrow> Return (Some err, unit)
      | Return None \<Rightarrow>
          (case newObjects unit (GetID entity) of
             None \<Rightarrow>
               Return (None, unit\<lparr>dirtyObjects := (dirtyObjects unit)(GetID entity \<mapsto> entity)\<rparr>)
           | Some found \<Rightarrow> Return (None, unit))))"

definition RegisterDeleted :: "UnitOfWork \<Rightarrow> Entity \<Rightarrow> (error option \<times> UnitOfWork) result" where
  "RegisterDeleted unit entity =
     (case assertEntityHasID unit entity of
        Some err \<Rightarrow> Return (Some err, unit)
      | None \<Rightarrow>
          (case newObjects unit (GetID entity) of
             Some found \<Rightarrow>
               Return (None, unit\<lparr>newObjects := (newObjects unit)(GetID entity := None)\<rparr>)
           | None \<Rightarrow>
               (let unit1 = unit\<lparr>dirtyObjects := (dirtyObjects unit)(GetID entity := None)\<rparr>
                in case deletedObjects unit1 (GetID entity) of
                     None \<Rightarrow>
                       Return (None, unit1\<lparr>deletedObjects :=
                                        (deletedObjects unit1)(GetID entity \<mapsto> entity)\<rparr>)
                   | Some found \<Rightarrow> Return (None, unit1))))"

subsection \<open>The Model revision\<close>

text \<open>
  \<^verbatim>\<open>src/unit_of_work.go\<close>: no helper is called, so no call can panic and the methods
  return the error and the registry directly.
\<close>

definition RegisterNew_Model :: "UnitOfWork \<Rightarrow> Model \<Rightarrow> error option \<times> UnitOfWork" where
  "RegisterNew_Model unit model =
     (if GetID model = ''''
      then (Some (MissingIdentity ''Registering new model failed: model has no ID: '' model), unit)
      else if dirtyObjects unit (GetID model) \<noteq> None
      then (Some (ConflictingState
              (''Registering new model failed: model with ID '' @ [CHR 0x22] @ GetID model @
               [CHR 0x22] @ '' is already registered as dirty'')), unit)
      else if deletedObjects unit (GetID model) \<noteq> None
      then (Some (ConflictingState
              (''Registering new model failed: model with ID '' @ [CHR 0x22] @ GetID model @
               [CHR 0x22] @ '' is already registered as removed'')), unit)
      else if newObjects unit (GetID model) \<noteq> None
      then (Some (ConflictingState
              (''Registering new model failed: model with ID '' @ [CHR 0x22] @ GetID model @
               [CHR 0x22] @ '' is already registered as new'')), unit)
      else (None, unit\<lparr>newObjects := (newObjects unit)(GetID model \<mapsto> model)\<rparr>))"

definition RegisterDirty_Model :: "UnitOfWork \<Rightarrow> Model \<Rightarrow> error option \<times> UnitOfWork" where
  "RegisterDirty_Model unit model =
     (if GetID model = ''''
      then (Some (MissingIdentity ''Registering new model failed: model has no ID: '' model), unit)
      else if deletedObjects unit (GetID model) \<noteq> None
      then (Some (ConflictingState
              (''Registering dirty model failed: model with ID '' @ [CHR 0x22] @ GetID model @
               [CHR 0x22] @ '' is already registered as removed'')), unit)
      else if newObjects unit (GetID model) = None
      then (None, unit\<lparr>dirtyObjects := (dirtyObjects unit)(GetID model \<mapsto> model)\<rparr>)
      else (None, unit))"

definition RegisterRemoved :: "UnitOfWork \<Rightarrow> Model \<Rightarrow> error option \<times> UnitOfWork" where
  "RegisterRemoved unit model =
     (if GetID model = ''''
      then (Some (MissingIdentity ''Registering removed model failed: model has no ID: '' model),
            unit)
      else if newObjects unit (GetID model) \<noteq> None
      then (None, unit\<lparr>newObjects := (newObjects unit)(GetID model := None)\<rparr>)
      else (let unit1 = unit\<lparr>dirtyObjects := (dirtyObjects unit)(GetID model := None)\<rparr>
            in if deletedObjects unit1 (GetID model) = None
               then (None, unit1\<lparr>deletedObjects :=
                                (deletedObjects unit1)(GetID model \<mapsto> model)\<rparr>)
               else (None, unit1)))"

text \<open>
  The helper of the Model revision that has one (second file of
  \<^verbatim>\<open>src/unnamed/part_002\<close>); its categories are \<^verbatim>\<open>"dirty"\<close>, \<^verbatim>\<open>"removed"\<close>, \<^verbatim>\<open>"new"\<close>.
\<close>

definition assertModelNotRegisteredAs ::
    "UnitOfWork \<Rightarrow> Model \<Rightarrow> string \<Rightarrow> error option result" where
  "assertModelNotRegisteredAs unit model registeredAs =
     (case (if registeredAs = ''dirty'' then Return (dirtyObjects unit)
            else if registeredAs = ''removed'' then Return (deletedObjects unit)
            else if registeredAs = ''new'' then Return (newObjects unit)
            else Panic (''unknown registry for state of persistence: '' @
                        [CHR 0x22] @ registeredAs @ [CHR 0x22])) of
        Panic msg \<Rightarrow> Panic msg
      | Return registry \<Rightarrow>
          (case registry (GetID model) of
             Some found \<Rightarrow>
               Return (Some (ConflictingState
                 (''Registering model failed: model with ID '' @ [CHR 0x22] @
                  GetID model @ [CHR 0x22] @ '' is already registered as '' @
                  registeredAs)))
           | None \<Rightarrow> Return None))"

subsection \<open>Properties of a registry\<close>

text \<open>
  \<open>registrations unit k\<close> is the number of mappings, of the three, that hold the
  identity \<open>k\<close>. "At most one mapping" is \<open>registrations unit k \<le> 1\<close>, "exactly one" is
  \<open>registrations unit k = 1\<close>.
\<close>

definition registrations :: "UnitOfWork \<Rightarrow> string \<Rightarrow> nat" where
  "registrations unit k =
     (if k \<in> dom (newObjects unit) then 1 else 0) +
     (if k \<in> dom (dirtyObjects unit) then 1 else 0) +
     (if k \<in> dom (deletedObjects unit) then 1 else 0)"

text \<open>
  The registries a caller can build: the empty registry, and the registry left by any call of
  a registration operation on such a registry, whether the call returned an error or not.
  One predicate for each revision.
\<close>

inductive reachable :: "UnitOfWork \<Rightarrow> bool" where
  reachable_NewUnitOfWork: "reachable NewUnitOfWork"
| reachable_RegisterNew:
    "reachable unit \<Longrightarrow> RegisterNew unit entity = Return (err, unit') \<Longrightarrow> reachable unit'"
| reachable_RegisterDirty:
    "reachable unit \<Longrightarrow> RegisterDirty unit entity = Return (err, unit') \<Longrightarrow> reachable unit'"
| reachable_RegisterDeleted:
    "reachable unit \<Longrightarrow> RegisterDeleted unit entity = Return (err, unit') \<Longrightarrow> reachable unit'"

inductive reachable_Model :: "UnitOfWork \<Rightarrow> bool" where
  reachable_Model_NewUnitOfWork: "reachable_Model NewUnitOfWork"
| reachable_Model_RegisterNew:
    "reachable_Model unit \<Longrightarrow> RegisterNew_Model unit model = (err, unit') \<Longrightarrow>
     reachable_Model unit'"
| reachable_Model_RegisterDirty:
    "reachable_Model unit \<Longrightarrow> RegisterDirty_Model unit model = (err, unit') \<Longrightarrow>
     reachable_Model unit'"
| reachable_Model_RegisterRemoved:
    "reachable_Model unit \<Longrightarrow> RegisterRemoved unit model = (err, unit') \<Longrightarrow>
     reachable_Model unit'"

text \<open>
  The ordered policy of RegisterDeleted as the specification words it, as a relation between
  the registry before the call, the entity and the registry after the call: an identity in
  the new mapping is removed from it and nothing else changes (the deleted mapping gets no
  entry); otherwise the identity is removed from the dirty mapping and the entity is put in
  the deleted mapping, unless the identity is there already, in which case the deleted
  mapping keeps the reference it holds.
\<close>

definition deletion_policy :: "UnitOfWork \<Rightarrow> Entity \<Rightarrow> UnitOfWork \<Rightarrow> bool" where
  "deletion_policy unit entity unit' \<longleftrightarrow>
     (if GetID entity \<in> dom (newObjects unit)
      then newObjects unit' = (newObjects unit)(GetID entity := None) \<and>
           dirtyObjects unit' = dirtyObjects unit \<and>
           deletedObjects unit' = deletedObjects unit
      else newObjects unit' = newObjects unit \<and>
           dirtyObjects unit' = (dirtyObjects unit)(GetID entity := None) \<and>
           deletedObjects unit' =
             (if GetID entity \<in> dom (deletedObjects unit) then deletedObjects unit
              else (deletedObjects unit)(GetID entity \<mapsto> entity)))"

text \<open>
  Two registries agree at a key when each of the three mappings holds the same for it in
  both; they have the same keys when each of the three mappings has the same key set in
  both.
\<close>

definition agree_at :: "UnitOfWork \<Rightarrow> UnitOfWork \<Rightarrow> string \<Rightarrow> bool" where
  "agree_at unit unit' k \<longleftrightarrow>
     newObjects unit' k = newObjects unit k \<and> dirtyObjects unit' k = dirtyObjects unit k \<and>
     deletedObjects unit' k = deletedObjects unit k"

definition same_keys :: "UnitOfWork \<Rightarrow> UnitOfWork \<Rightarrow> bool" where
  "same_keys unit unit' \<longleftrightarrow>
     dom (newObjects unit') = dom (newObjects unit) \<and>
     dom (dirtyObjects unit') = dom (dirtyObjects unit) \<and>
     dom (deletedObjects unit') = dom (deletedObjects unit)"

text \<open>
  Two returned errors are the same outcome when both are \<^verbatim>\<open>nil\<close>, or both are the "has no ID"
  error with the same format (the entity rendered after it is the argument of each call), or
  both are the "already registered" error with the same message.
\<close>

fun same_outcome :: "error option \<Rightarrow> error option \<Rightarrow> bool" where
  "same_outcome None None = True"
| "same_outcome (Some (MissingIdentity fmt1 e1)) (Some (MissingIdentity fmt2 e2)) = (fmt1 = fmt2)"
| "same_outcome (Some (ConflictingState msg1)) (Some (ConflictingState msg2)) = (msg1 = msg2)"
| "same_outcome err1 err2 = False"

section \<open>What the operations compute\<close>

text \<open>
  The three operations of the Entity revision, with the calls of the two helpers resolved:
  none of them can panic, since each passes a recognised category name to
  \<open>assertEntityNotRegisteredAs\<close>.
\<close>

lemma RegisterNew_eq:
  "RegisterNew unit entity =
     Return
       (if GetID entity = ''''
        then (Some (MissingIdentity ''Registering entity failed: entity has no ID: '' entity), unit)
        else if GetID entity \<in> dom (dirtyObjects unit)
        then (Some (ConflictingState
                (''Registering entity failed: entity with ID '' @ [CHR 0x22] @ GetID entity @
                 [CHR 0x22] @ '' is already registered as dirty'')), unit)
        else if GetID entity \<in> dom (deletedObjects unit)
        then (Some (ConflictingState
                (''Registering entity failed: entity with ID '' @ [CHR 0x22] @ GetID entity @
                 [CHR 0x22] @ '' is already registered as deleted'')), unit)
        else if GetID entity \<in> dom (newObjects unit)
        then (Some (ConflictingState
                (''Registering entity failed: entity with ID '' @ [CHR 0x22] @ GetID entity @
                 [CHR 0x22] @ '' is already registered as new'')), unit)
        else (None, unit\<lparr>newObjects := (newObjects unit)(GetID entity \<mapsto> entity)\<rparr>))"
  by (auto simp: RegisterNew_def assertEntityHasID_def assertEntityNotRegisteredAs_def
           split: option.splits)

lemma RegisterDirty_eq:
  "RegisterDirty unit entity =
     Return
       (if GetID entity = ''''
        then (Some (MissingIdentity ''Registering entity failed: entity has no ID: '' entity), unit)
        else if GetID entity \<in> dom (deletedObjects unit)
        then (Some (ConflictingState
                (''Registering entity failed: entity with ID '' @ [CHR 0x22] @ GetID entity @
                 [CHR 0x22] @ '' is already registered as deleted'')), unit)
        else if GetID entity \<in> dom (newObjects unit)
        then (None, unit)
        else (None, unit\<lparr>dirtyObjects := (dirtyObjects unit)(GetID entity \<mapsto> entity)\<rparr>))"
  by (auto simp: RegisterDirty_def assertEntityHasID_def assertEntityNotRegisteredAs_def
           split: option.splits)

lemma RegisterDeleted_eq:
  "RegisterDeleted unit entity =
     Return
       (if GetID entity = ''''
        then (Some (MissingIdentity ''Registering entity failed: entity has no ID: '' entity), unit)
        else if GetID entity \<in> dom (newObjects unit)
        then (None, unit\<lparr>newObjects := (newObjects unit)(GetID entity := None)\<rparr>)
        else if GetID entity \<in> dom (deletedObjects unit)
        then (None, unit\<lparr>dirtyObjects := (dirtyObjects unit)(GetID entity := None)\<rparr>)
        else (None, unit\<lparr>dirtyObjects := (dirtyObjects unit)(GetID entity := None),
                          deletedObjects := (deletedObjects unit)(GetID entity \<mapsto> entity)\<rparr>))"
  by (auto simp: RegisterDeleted_def assertEntityHasID_def Let_def split: option.splits)

lemma names_category:
  "sublist ''already registered as dirty'' (p @ '' is already registered as dirty'')"
  "sublist ''already registered as deleted'' (p @ '' is already registered as deleted'')"
  "sublist ''already registered as removed'' (p @ '' is already registered as removed'')"
  "sublist ''already registered as new'' (p @ '' is already registered as new'')"
proof -
  have s: "sublist w (p @ '' is '' @ w)" for w :: string
    by (metis sublist_appendI append.assoc append_Nil2)
  show "sublist ''already registered as dirty'' (p @ '' is already registered as dirty'')"
    using s [of "''already registered as dirty''"] by simp
  show "sublist ''already registered as deleted'' (p @ '' is already registered as deleted'')"
    using s [of "''already registered as deleted''"] by simp
  show "sublist ''already registered as removed'' (p @ '' is already registered as removed'')"
    using s [of "''already registered as removed''"] by simp
  show "sublist ''already registered as new'' (p @ '' is already registered as new'')"
    using s [of "''already registered as new''"] by simp
qed

lemma RegisterNew_registrations:
  "registrations unit k \<le> 1 \<Longrightarrow> RegisterNew unit entity = Return (err, unit') \<Longrightarrow>
   registrations unit' k \<le> 1"
  by (auto simp: RegisterNew_eq registrations_def split: if_splits)

lemma RegisterDirty_registrations:
  "registrations unit k \<le> 1 \<Longrightarrow> RegisterDirty unit entity = Return (err, unit') \<Longrightarrow>
   registrations unit' k \<le> 1"
  by (auto simp: RegisterDirty_eq registrations_def split: if_splits)

lemma RegisterDeleted_registrations:
  "registrations unit k \<le> 1 \<Longrightarrow> RegisterDeleted unit entity = Return (err, unit') \<Longrightarrow>
   registrations unit' k \<le> 1"
  by (auto simp: RegisterDeleted_eq registrations_def split: if_splits)

lemma RegisterNew_Model_registrations:
  "registrations unit k \<le> 1 \<Longrightarrow> RegisterNew_Model unit model = (err, unit') \<Longrightarrow>
   registrations unit' k \<le> 1"
  by (auto simp: RegisterNew_Model_def registrations_def split: if_splits)

lemma RegisterDirty_Model_registrations:
  "registrations unit k \<le> 1 \<Longrightarrow> RegisterDirty_Model unit model = (err, unit') \<Longrightarrow>
   registrations unit' k \<le> 1"
  by (auto simp: RegisterDirty_Model_def registrations_def split: if_splits)

lemma RegisterRemoved_registrations:
  "registrations unit k \<le> 1 \<Longrightarrow> RegisterRemoved unit model = (err, unit') \<Longrightarrow>
   registrations unit' k \<le> 1"
  by (auto simp: RegisterRemoved_def registrations_def Let_def split: if_splits)

lemma registrations_NewUnitOfWork: "registrations NewUnitOfWork k = 0"
  by (simp add: registrations_def NewUnitOfWork_def)

lemma reachable_registrations: "reachable unit \<Longrightarrow> registrations unit k \<le> 1"
proof (induction rule: reachable.induct)
  case reachable_NewUnitOfWork
  show ?case by (simp add: registrations_NewUnitOfWork)
next
  case (reachable_RegisterNew unit entity err unit')
  then show ?case by (blast intro: RegisterNew_registrations)
next
  case (reachable_RegisterDirty unit entity err unit')
  then show ?case by (blast intro: RegisterDirty_registrations)
next
  case (reachable_RegisterDeleted unit entity err unit')
  then show ?case by (blast intro: RegisterDeleted_registrations)
qed

lemma reachable_Model_registrations: "reachable_Model unit \<Longrightarrow> registrations unit k \<le> 1"
proof (induction rule: reachable_Model.induct)
  case reachable_Model_NewUnitOfWork
  show ?case by (simp add: registrations_NewUnitOfWork)
next
  case (reachable_Model_RegisterNew unit model err unit')
  then show ?case by (blast intro: RegisterNew_Model_registrations)
next
  case (reachable_Model_RegisterDirty unit model err unit')
  then show ?case by (blast intro: RegisterDirty_Model_registrations)
next
  case (reachable_Model_RegisterRemoved unit model err unit')
  then show ?case by (blast intro: RegisterRemoved_registrations)
qed

text \<open>
  The two revisions differ in the text of their messages only: on the same registry and
  entity the Model revision returns the registry the Entity revision returns, no error
  where it returns none, and an error of the same kind where it returns one.
\<close>

lemma RegisterNew_Model_agrees:
  "\<exists>err unit'. RegisterNew unit entity = Return (err, unit') \<and>
     snd (RegisterNew_Model unit entity) = unit' \<and>
     (case (err, fst (RegisterNew_Model unit entity)) of
        (None, None) \<Rightarrow> True
      | (Some (MissingIdentity fmt e), Some (MissingIdentity fmt' e')) \<Rightarrow> e = e'
      | (Some (ConflictingState msg), Some (ConflictingState msg')) \<Rightarrow> True
      | _ \<Rightarrow> False)"
  by (simp add: RegisterNew_eq RegisterNew_Model_def domIff)

lemma RegisterDirty_Model_agrees:
  "\<exists>err unit'. RegisterDirty unit entity = Return (err, unit') \<and>
     snd (RegisterDirty_Model unit entity) = unit' \<and>
     (case (err, fst (RegisterDirty_Model unit entity)) of
        (None, None) \<Rightarrow> True
      | (Some (MissingIdentity fmt e), Some (MissingIdentity fmt' e')) \<Rightarrow> e = e'
      | (Some (ConflictingState msg), Some (ConflictingState msg')) \<Rightarrow> True
      | _ \<Rightarrow> False)"
  by (simp add: RegisterDirty_eq RegisterDirty_Model_def domIff)

lemma RegisterRemoved_agrees:
  "\<exists>err unit'. RegisterDeleted unit entity = Return (err, unit') \<and>
     snd (RegisterRemoved unit entity) = unit' \<and>
     (case (err, fst (RegisterRemoved unit entity)) of
        (None, None) \<Rightarrow> True
      | (Some (MissingIdentity fmt e), Some (MissingIdentity fmt' e')) \<Rightarrow> e = e'
      | (Some (ConflictingState msg), Some (ConflictingState msg')) \<Rightarrow> True
      | _ \<Rightarrow> False)"
  by (simp add: RegisterDeleted_eq RegisterRemoved_def Let_def domIff)

section \<open>The invariant\<close>

text \<open>
  Claim C1. In every registry reachable from the empty registry by any sequence of
  RegisterNew, RegisterDirty and RegisterDeleted (RegisterRemoved) calls, failing calls
  included, every identity is in at most one of the three mappings; and each operation
  preserves this: whenever an identity is in at most one mapping before a call, the call
  returns and the identity is in at most one mapping after it. Both revisions.
\<close>

theorem at_most_one_mapping:
  "(reachable unit \<longrightarrow> registrations unit k \<le> 1) \<and>
   (reachable_Model unit \<longrightarrow> registrations unit k \<le> 1) \<and>
   (registrations unit k \<le> 1 \<longrightarrow>
      (\<exists>err unit'. RegisterNew unit entity = Return (err, unit') \<and> registrations unit' k \<le> 1) \<and>
      (\<exists>err unit'. RegisterDirty unit entity = Return (err, unit') \<and> registrations unit' k \<le> 1) \<and>
      (\<exists>err unit'. RegisterDeleted unit entity = Return (err, unit') \<and>
         registrations unit' k \<le> 1) \<and>
      registrations (snd (RegisterNew_Model unit entity)) k \<le> 1 \<and>
      registrations (snd (RegisterDirty_Model unit entity)) k \<le> 1 \<and>
      registrations (snd (RegisterRemoved unit entity)) k \<le> 1)"
proof (intro conjI impI)
  assume "reachable unit"
  then show "registrations unit k \<le> 1" by (rule reachable_registrations)
next
  assume "reachable_Model unit"
  then show "registrations unit k \<le> 1" by (rule reachable_Model_registrations)
next
  assume pre: "registrations unit k \<le> 1"
  obtain err unit' where r: "RegisterNew unit entity = Return (err, unit')"
    by (metis RegisterNew_eq surj_pair)
  with pre show "\<exists>err unit'. RegisterNew unit entity = Return (err, unit') \<and>
      registrations unit' k \<le> 1"
    by (blast intro: RegisterNew_registrations)
next
  assume pre: "registrations unit k \<le> 1"
  obtain err unit' where r: "RegisterDirty unit entity = Return (err, unit')"
    by (metis RegisterDirty_eq surj_pair)
  with pre show "\<exists>err unit'. RegisterDirty unit entity = Return (err, unit') \<and>
      registrations unit' k \<le> 1"
    by (blast intro: RegisterDirty_registrations)
next
  assume pre: "registrations unit k \<le> 1"
  obtain err unit' where r: "RegisterDeleted unit entity = Return (err, unit')"
    by (metis RegisterDeleted_eq surj_pair)
  with pre show "\<exists>err unit'. RegisterDeleted unit entity = Return (err, unit') \<and>
      registrations unit' k \<le> 1"
    by (blast intro: RegisterDeleted_registrations)
next
  assume "registrations unit k \<le> 1"
  then show "registrations (snd (RegisterNew_Model unit entity)) k \<le> 1"
    by (metis RegisterNew_Model_registrations prod.collapse)
next
  assume "registrations unit k \<le> 1"
  then show "registrations (snd (RegisterDirty_Model unit entity)) k \<le> 1"
    by (metis RegisterDirty_Model_registrations prod.collapse)
next
  assume "registrations unit k \<le> 1"
  then show "registrations (snd (RegisterRemoved unit entity)) k \<le> 1"
    by (metis RegisterRemoved_registrations prod.collapse)
qed

text \<open>
  The theorem at the registry that holds the identity \<open>5\<close> as new, which both revisions
  reach from the empty registry by one RegisterNew.
\<close>

theorem at_most_one_mapping_witness:
  "reachable \<lparr>newObjects = [''5'' \<mapsto> Entity 1 ''5''], dirtyObjects = Map.empty,
              deletedObjects = Map.empty\<rparr> \<and>
   reachable_Model \<lparr>newObjects = [''5'' \<mapsto> Entity 1 ''5''], dirtyObjects = Map.empty,
              deletedObjects = Map.empty\<rparr> \<and>
   registrations \<lparr>newObjects = [''5'' \<mapsto> Entity 1 ''5''], dirtyObjects = Map.empty,
              deletedObjects = Map.empty\<rparr> ''5'' \<le> 1 \<and>
   (\<exists>err unit'. RegisterDirty \<lparr>newObjects = [''5'' \<mapsto> Entity 1 ''5''], dirtyObjects = Map.empty,
              deletedObjects = Map.empty\<rparr> (Entity 1 ''5'') = Return (err, unit') \<and>
        registrations unit' ''5'' \<le> 1) \<and>
   registrations (snd (RegisterRemoved \<lparr>newObjects = [''5'' \<mapsto> Entity 1 ''5''],
              dirtyObjects = Map.empty, deletedObjects = Map.empty\<rparr> (Entity 1 ''5''))) ''5'' \<le> 1"
proof -
  let ?u = "\<lparr>newObjects = [''5'' \<mapsto> Entity 1 ''5''], dirtyObjects = Map.empty,
             deletedObjects = Map.empty\<rparr>"
  have "RegisterNew NewUnitOfWork (Entity 1 ''5'') = Return (None, ?u)"
    by (simp add: RegisterNew_eq NewUnitOfWork_def)
  then have r: "reachable ?u"
    by (rule reachable_RegisterNew [OF reachable_NewUnitOfWork])
  have "RegisterNew_Model NewUnitOfWork (Entity 1 ''5'') = (None, ?u)"
    by (simp add: RegisterNew_Model_def NewUnitOfWork_def)
  then have m: "reachable_Model ?u"
    by (rule reachable_Model_RegisterNew [OF reachable_Model_NewUnitOfWork])
  from r m at_most_one_mapping [of ?u "''5''" "Entity 1 ''5''"] show ?thesis
    by simp
qed

section \<open>RegisterNew\<close>

text \<open>
  Claim C2 says that RegisterNew of an identity held by the deleted mapping fails with a
  message naming the category as "already registered as deleted". The Entity revision does
  so. The Model revision (\<^verbatim>\<open>src/unit_of_work.go\<close>) names its third mapping
  \<^verbatim>\<open>removedObjects\<close> and words the message "already registered as removed", as its test
  \<^verbatim>\<open>src/unnamed/part_001\<close> expects: after RegisterRemoved of the entity with identity
  \<open>5\<close> on the empty registry, RegisterNew of it returns the message below, which does not
  contain "already registered as deleted".
\<close>

theorem RegisterNew_Model_removed_wording:
  "RegisterRemoved NewUnitOfWork (Entity 1 ''5'') =
     (None, \<lparr>newObjects = Map.empty, dirtyObjects = Map.empty,
             deletedObjects = [''5'' \<mapsto> Entity 1 ''5'']\<rparr>) \<and>
   RegisterNew_Model \<lparr>newObjects = Map.empty, dirtyObjects = Map.empty,
                      deletedObjects = [''5'' \<mapsto> Entity 1 ''5'']\<rparr> (Entity 1 ''5'') =
     (Some (ConflictingState
        (''Registering new model failed: model with ID '' @ [CHR 0x22] @ ''5'' @ [CHR 0x22] @
         '' is already registered as removed'')),
      \<lparr>newObjects = Map.empty, dirtyObjects = Map.empty,
       deletedObjects = [''5'' \<mapsto> Entity 1 ''5'']\<rparr>) \<and>
   \<not> sublist ''already registered as deleted''
        (''Registering new model failed: model with ID '' @ [CHR 0x22] @ ''5'' @ [CHR 0x22] @
         '' is already registered as removed'')"
proof (intro conjI)
  show "RegisterRemoved NewUnitOfWork (Entity 1 ''5'') =
     (None, \<lparr>newObjects = Map.empty, dirtyObjects = Map.empty,
             deletedObjects = [''5'' \<mapsto> Entity 1 ''5'']\<rparr>)"
    by (simp add: RegisterRemoved_def NewUnitOfWork_def)
  show "RegisterNew_Model \<lparr>newObjects = Map.empty, dirtyObjects = Map.empty,
                      deletedObjects = [''5'' \<mapsto> Entity 1 ''5'']\<rparr> (Entity 1 ''5'') =
     (Some (ConflictingState
        (''Registering new model failed: model with ID '' @ [CHR 0x22] @ ''5'' @ [CHR 0x22] @
         '' is already registered as removed'')),
      \<lparr>newObjects = Map.empty, dirtyObjects = Map.empty,
       deletedObjects = [''5'' \<mapsto> Entity 1 ''5'']\<rparr>)"
    by (simp add: RegisterNew_Model_def)
  show "\<not> sublist ''already registered as deleted''
        (''Registering new model failed: model with ID '' @ [CHR 0x22] @ ''5'' @ [CHR 0x22] @
         '' is already registered as removed'')"
    by code_simp
qed

text \<open>
  Claim C2, as amended. For every registry and entity, RegisterNew returns (it never panics)
  and fails if and only if the identity is empty or is held by the dirty, the deleted or the
  new mapping. The error is the "has no ID" error for the empty identity; otherwise it is
  the "already registered" error, whose message names the first of dirty, deleted, new that
  holds the identity: "already registered as dirty", "already registered as deleted" (in
  the Model revision "already registered as removed"), "already registered as new". On
  success the new mapping holds the entity itself at its identity, and neither the dirty nor
  the deleted mapping holds that identity.
\<close>

theorem RegisterNew_outcome:
  "(\<exists>err unit'. RegisterNew unit entity = Return (err, unit') \<and>
      (err \<noteq> None \<longleftrightarrow>
         GetID entity = '''' \<or> GetID entity \<in> dom (dirtyObjects unit) \<or>
         GetID entity \<in> dom (deletedObjects unit) \<or> GetID entity \<in> dom (newObjects unit)) \<and>
      (if GetID entity = '''' then \<exists>fmt. err = Some (MissingIdentity fmt entity)
       else if GetID entity \<in> dom (dirtyObjects unit)
       then \<exists>msg. err = Some (ConflictingState msg) \<and> sublist ''already registered as dirty'' msg
       else if GetID entity \<in> dom (deletedObjects unit)
       then \<exists>msg. err = Some (ConflictingState msg) \<and>
              sublist ''already registered as deleted'' msg
       else if GetID entity \<in> dom (newObjects unit)
       then \<exists>msg. err = Some (ConflictingState msg) \<and> sublist ''already registered as new'' msg
       else err = None \<and> newObjects unit' (GetID entity) = Some entity \<and>
            GetID entity \<notin> dom (dirtyObjects unit') \<and>
            GetID entity \<notin> dom (deletedObjects unit'))) \<and>
   (\<exists>err unit'. RegisterNew_Model unit entity = (err, unit') \<and>
      (err \<noteq> None \<longleftrightarrow>
         GetID entity = '''' \<or> GetID entity \<in> dom (dirtyObjects unit) \<or>
         GetID entity \<in> dom (deletedObjects unit) \<or> GetID entity \<in> dom (newObjects unit)) \<and>
      (if GetID entity = '''' then \<exists>fmt. err = Some (MissingIdentity fmt entity)
       else if GetID entity \<in> dom (dirtyObjects unit)
       then \<exists>msg. err = Some (ConflictingState msg) \<and> sublist ''already registered as dirty'' msg
       else if GetID entity \<in> dom (deletedObjects unit)
       then \<exists>msg. err = Some (ConflictingState msg) \<and>
              sublist ''already registered as removed'' msg
       else if GetID entity \<in> dom (newObjects unit)
       then \<exists>msg. err = Some (ConflictingState msg) \<and> sublist ''already registered as new'' msg
       else err = None \<and> newObjects unit' (GetID entity) = Some entity \<and>
            GetID entity \<notin> dom (dirtyObjects unit') \<and>
            GetID entity \<notin> dom (deletedObjects unit')))"
proof (rule conjI)
  show "\<exists>err unit'. RegisterNew unit entity = Return (err, unit') \<and>
      (err \<noteq> None \<longleftrightarrow>
         GetID entity = '''' \<or> GetID entity \<in> dom (dirtyObjects unit) \<or>
         GetID entity \<in> dom (deletedObjects unit) \<or> GetID entity \<in> dom (newObjects unit)) \<and>
      (if GetID entity = '''' then \<exists>fmt. err = Some (MissingIdentity fmt entity)
       else if GetID entity \<in> dom (dirtyObjects unit)
       then \<exists>msg. err = Some (ConflictingState msg) \<and> sublist ''already registered as dirty'' msg
       else if GetID entity \<in> dom (deletedObjects unit)
       then \<exists>msg. err = Some (ConflictingState msg) \<and>
              sublist ''already registered as deleted'' msg
       else if GetID entity \<in> dom (newObjects unit)
       then \<exists>msg. err = Some (ConflictingState msg) \<and> sublist ''already registered as new'' msg
       else err = None \<and> newObjects unit' (GetID entity) = Some entity \<and>
            GetID entity \<notin> dom (dirtyObjects unit') \<and>
            GetID entity \<notin> dom (deletedObjects unit'))"
    using names_category [of "''Registering entity failed: entity with ID '' @ [CHR 0x22] @
                 GetID entity @ [CHR 0x22]"]
    by (auto simp: RegisterNew_eq)
  show "\<exists>err unit'. RegisterNew_Model unit entity = (err, unit') \<and>
      (err \<noteq> None \<longleftrightarrow>
         GetID entity = '''' \<or> GetID entity \<in> dom (dirtyObjects unit) \<or>
         GetID entity \<in> dom (deletedObjects unit) \<or> GetID entity \<in> dom (newObjects unit)) \<and>
      (if GetID entity = '''' then \<exists>fmt. err = Some (MissingIdentity fmt entity)
       else if GetID entity \<in> dom (dirtyObjects unit)
       then \<exists>msg. err = Some (ConflictingState msg) \<and> sublist ''already registered as dirty'' msg
       else if GetID entity \<in> dom (deletedObjects unit)
       then \<exists>msg. err = Some (ConflictingState msg) \<and>
              sublist ''already registered as removed'' msg
       else if GetID entity \<in> dom (newObjects unit)
       then \<exists>msg. err = Some (ConflictingState msg) \<and> sublist ''already registered as new'' msg
       else err = None \<and> newObjects unit' (GetID entity) = Some entity \<and>
            GetID entity \<notin> dom (dirtyObjects unit') \<and>
            GetID entity \<notin> dom (deletedObjects unit'))"
    using names_category [of "''Registering new model failed: model with ID '' @ [CHR 0x22] @
                 GetID entity @ [CHR 0x22]"]
    by (auto simp: RegisterNew_Model_def)
qed

text \<open>
  The theorem at concrete registries: the empty identity, a conflict with the deleted
  mapping and a successful registration in the Entity revision; the three conflicts in the
  Model revision.
\<close>

theorem RegisterNew_outcome_witness:
  "(\<exists>fmt u. RegisterNew \<lparr>newObjects = Map.empty, dirtyObjects = Map.empty,
                          deletedObjects = Map.empty\<rparr> (Entity 1 '''') =
             Return (Some (MissingIdentity fmt (Entity 1 '''')), u)) \<and>
   (\<exists>msg u. RegisterNew \<lparr>newObjects = Map.empty, dirtyObjects = Map.empty,
                          deletedObjects = [''5'' \<mapsto> Entity 1 ''5'']\<rparr> (Entity 2 ''5'') =
             Return (Some (ConflictingState msg), u) \<and>
             sublist ''already registered as deleted'' msg) \<and>
   (\<exists>u. RegisterNew \<lparr>newObjects = Map.empty, dirtyObjects = Map.empty,
                      deletedObjects = Map.empty\<rparr> (Entity 1 ''5'') = Return (None, u) \<and>
        newObjects u ''5'' = Some (Entity 1 ''5'') \<and> ''5'' \<notin> dom (dirtyObjects u) \<and>
        ''5'' \<notin> dom (deletedObjects u)) \<and>
   (\<exists>msg u. RegisterNew_Model \<lparr>newObjects = Map.empty,
                          dirtyObjects = [''5'' \<mapsto> Entity 1 ''5''],
                          deletedObjects = Map.empty\<rparr> (Entity 2 ''5'') =
             (Some (ConflictingState msg), u) \<and>
             sublist ''already registered as dirty'' msg) \<and>
   (\<exists>msg u. RegisterNew_Model \<lparr>newObjects = Map.empty, dirtyObjects = Map.empty,
                          deletedObjects = [''5'' \<mapsto> Entity 1 ''5'']\<rparr> (Entity 2 ''5'') =
             (Some (ConflictingState msg), u) \<and>
             sublist ''already registered as removed'' msg) \<and>
   (\<exists>msg u. RegisterNew_Model \<lparr>newObjects = [''5'' \<mapsto> Entity 1 ''5''],
                          dirtyObjects = Map.empty,
                          deletedObjects = Map.empty\<rparr> (Entity 2 ''5'') =
             (Some (ConflictingState msg), u) \<and>
             sublist ''already registered as new'' msg)"
proof (intro conjI)
  show "\<exists>fmt u. RegisterNew \<lparr>newObjects = Map.empty, dirtyObjects = Map.empty,
                          deletedObjects = Map.empty\<rparr> (Entity 1 '''') =
             Return (Some (MissingIdentity fmt (Entity 1 '''')), u)"
    using RegisterNew_outcome [of "\<lparr>newObjects = Map.empty, dirtyObjects = Map.empty,
                          deletedObjects = Map.empty\<rparr>" "Entity 1 ''''"]
    by auto
  show "\<exists>msg u. RegisterNew \<lparr>newObjects = Map.empty, dirtyObjects = Map.empty,
                          deletedObjects = [''5'' \<mapsto> Entity 1 ''5'']\<rparr> (Entity 2 ''5'') =
             Return (Some (ConflictingState msg), u) \<and>
             sublist ''already registered as deleted'' msg"
    using RegisterNew_outcome [of "\<lparr>newObjects = Map.empty, dirtyObjects = Map.empty,
                          deletedObjects = [''5'' \<mapsto> Entity 1 ''5'']\<rparr>" "Entity 2 ''5''"]
    by auto
  show "\<exists>u. RegisterNew \<lparr>newObjects = Map.empty, dirtyObjects = Map.empty,
                      deletedObjects = Map.empty\<rparr> (Entity 1 ''5'') = Return (None, u) \<and>
        newObjects u ''5'' = Some (Entity 1 ''5'') \<and> ''5'' \<notin> dom (dirtyObjects u) \<and>
        ''5'' \<notin> dom (deletedObjects u)"
    using RegisterNew_outcome [of "\<lparr>newObjects = Map.empty, dirtyObjects = Map.empty,
                          deletedObjects = Map.empty\<rparr>" "Entity 1 ''5''"]
    by auto
  show "\<exists>msg u. RegisterNew_Model \<lparr>newObjects = Map.empty,
                          dirtyObjects = [''5'' \<mapsto> Entity 1 ''5''],
                          deletedObjects = Map.empty\<rparr> (Entity 2 ''5'') =
             (Some (ConflictingState msg), u) \<and>
             sublist ''already registered as dirty'' msg"
    using RegisterNew_outcome [of "\<lparr>newObjects = Map.empty,
                          dirtyObjects = [''5'' \<mapsto> Entity 1 ''5''],
                          deletedObjects = Map.empty\<rparr>" "Entity 2 ''5''"]
    by auto
  show "\<exists>msg u. RegisterNew_Model \<lparr>newObjects = Map.empty, dirtyObjects = Map.empty,
                          deletedObjects = [''5'' \<mapsto> Entity 1 ''5'']\<rparr> (Entity 2 ''5'') =
             (Some (ConflictingState msg), u) \<and>
             sublist ''already registered as removed'' msg"
    using RegisterNew_outcome [of "\<lparr>newObjects = Map.empty, dirtyObjects = Map.empty,
                          deletedObjects = [''5'' \<mapsto> Entity 1 ''5'']\<rparr>" "Entity 2 ''5''"]
    by auto
  show "\<exists>msg u. RegisterNew_Model \<lparr>newObjects = [''5'' \<mapsto> Entity 1 ''5''],
                          dirtyObjects = Map.empty,
                          deletedObjects = Map.empty\<rparr> (Entity 2 ''5'') =
             (Some (ConflictingState msg), u) \<and>
             sublist ''already registered as new'' msg"
    using RegisterNew_outcome [of "\<lparr>newObjects = [''5'' \<mapsto> Entity 1 ''5''],
                          dirtyObjects = Map.empty,
                          deletedObjects = Map.empty\<rparr>" "Entity 2 ''5''"]
    by auto
qed

section \<open>RegisterDeleted\<close>

text \<open>
  Claim C3. For every registry and every entity with a non-empty identity, RegisterDeleted
  (RegisterRemoved) succeeds and follows the ordered policy: an identity held by the new
  mapping is removed from it and is not added to the deleted mapping; otherwise the
  identity is removed from the dirty mapping, if it is there, and the entity is put in the
  deleted mapping, except that an identity already in the deleted mapping keeps the
  reference stored before.
\<close>

theorem RegisterDeleted_policy:
  assumes "GetID entity \<noteq> ''''"
  shows "(\<exists>unit'. RegisterDeleted unit entity = Return (None, unit') \<and>
            deletion_policy unit entity unit') \<and>
         (\<exists>unit'. RegisterRemoved unit entity = (None, unit') \<and>
            deletion_policy unit entity unit')"
proof (rule conjI)
  show "\<exists>unit'. RegisterDeleted unit entity = Return (None, unit') \<and>
          deletion_policy unit entity unit'"
    using assms by (auto simp: RegisterDeleted_eq deletion_policy_def)
  show "\<exists>unit'. RegisterRemoved unit entity = (None, unit') \<and>
          deletion_policy unit entity unit'"
    using assms by (auto simp: RegisterRemoved_def deletion_policy_def Let_def)
qed

text \<open>
  The theorem on the two scenarios of the specification (identity \<open>5\<close> new, then
  deleted: nothing is left; identity \<open>7\<close> dirty, then deleted: only the deleted mapping
  holds it) and on an identity already deleted, where the older reference \<open>Entity 1\<close>
  stays.
\<close>

theorem RegisterDeleted_policy_witness:
  "(\<exists>u. RegisterDeleted \<lparr>newObjects = [''5'' \<mapsto> Entity 1 ''5''], dirtyObjects = Map.empty,
                          deletedObjects = Map.empty\<rparr> (Entity 1 ''5'') = Return (None, u) \<and>
        newObjects u = Map.empty \<and> dirtyObjects u = Map.empty \<and>
        deletedObjects u = Map.empty) \<and>
   (\<exists>u. RegisterDeleted \<lparr>newObjects = Map.empty, dirtyObjects = [''7'' \<mapsto> Entity 1 ''7''],
                          deletedObjects = Map.empty\<rparr> (Entity 2 ''7'') = Return (None, u) \<and>
        newObjects u = Map.empty \<and> dirtyObjects u = Map.empty \<and>
        deletedObjects u = [''7'' \<mapsto> Entity 2 ''7'']) \<and>
   (\<exists>u. RegisterDeleted \<lparr>newObjects = Map.empty, dirtyObjects = Map.empty,
                          deletedObjects = [''7'' \<mapsto> Entity 1 ''7'']\<rparr> (Entity 2 ''7'') =
          Return (None, u) \<and>
        newObjects u = Map.empty \<and> dirtyObjects u = Map.empty \<and>
        deletedObjects u = [''7'' \<mapsto> Entity 1 ''7'']) \<and>
   (\<exists>u. RegisterRemoved \<lparr>newObjects = [''5'' \<mapsto> Entity 1 ''5''], dirtyObjects = Map.empty,
                          deletedObjects = Map.empty\<rparr> (Entity 1 ''5'') = (None, u) \<and>
        newObjects u = Map.empty \<and> dirtyObjects u = Map.empty \<and>
        deletedObjects u = Map.empty) \<and>
   (\<exists>u. RegisterRemoved \<lparr>newObjects = Map.empty, dirtyObjects = [''7'' \<mapsto> Entity 1 ''7''],
                          deletedObjects = Map.empty\<rparr> (Entity 2 ''7'') = (None, u) \<and>
        newObjects u = Map.empty \<and> dirtyObjects u = Map.empty \<and>
        deletedObjects u = [''7'' \<mapsto> Entity 2 ''7''])"
proof (intro conjI)
  have five: "GetID (Entity 1 ''5'') \<noteq> ''''" and seven: "GetID (Entity 2 ''7'') \<noteq> ''''"
    by simp_all
  show "\<exists>u. RegisterDeleted \<lparr>newObjects = [''5'' \<mapsto> Entity 1 ''5''], dirtyObjects = Map.empty,
                          deletedObjects = Map.empty\<rparr> (Entity 1 ''5'') = Return (None, u) \<and>
        newObjects u = Map.empty \<and> dirtyObjects u = Map.empty \<and>
        deletedObjects u = Map.empty"
    using RegisterDeleted_policy [OF five, of "\<lparr>newObjects = [''5'' \<mapsto> Entity 1 ''5''],
                          dirtyObjects = Map.empty, deletedObjects = Map.empty\<rparr>"]
    by (auto simp: deletion_policy_def)
  show "\<exists>u. RegisterDeleted \<lparr>newObjects = Map.empty, dirtyObjects = [''7'' \<mapsto> Entity 1 ''7''],
                          deletedObjects = Map.empty\<rparr> (Entity 2 ''7'') = Return (None, u) \<and>
        newObjects u = Map.empty \<and> dirtyObjects u = Map.empty \<and>
        deletedObjects u = [''7'' \<mapsto> Entity 2 ''7'']"
    using RegisterDeleted_policy [OF seven, of "\<lparr>newObjects = Map.empty,
                          dirtyObjects = [''7'' \<mapsto> Entity 1 ''7''],
                          deletedObjects = Map.empty\<rparr>"]
    by (auto simp: deletion_policy_def)
  show "\<exists>u. RegisterDeleted \<lparr>newObjects = Map.empty, dirtyObjects = Map.empty,
                          deletedObjects = [''7'' \<mapsto> Entity 1 ''7'']\<rparr> (Entity 2 ''7'') =
          Return (None, u) \<and>
        newObjects u = Map.empty \<and> dirtyObjects u = Map.empty \<and>
        deletedObjects u = [''7'' \<mapsto> Entity 1 ''7'']"
    using RegisterDeleted_policy [OF seven, of "\<lparr>newObjects = Map.empty,
                          dirtyObjects = Map.empty,
                          deletedObjects = [''7'' \<mapsto> Entity 1 ''7'']\<rparr>"]
    by (auto simp: deletion_policy_def)
  show "\<exists>u. RegisterRemoved \<lparr>newObjects = [''5'' \<mapsto> Entity 1 ''5''], dirtyObjects = Map.empty,
                          deletedObjects = Map.empty\<rparr> (Entity 1 ''5'') = (None, u) \<and>
        newObjects u = Map.empty \<and> dirtyObjects u = Map.empty \<and>
        deletedObjects u = Map.empty"
    using RegisterDeleted_policy [OF five, of "\<lparr>newObjects = [''5'' \<mapsto> Entity 1 ''5''],
                          dirtyObjects = Map.empty, deletedObjects = Map.empty\<rparr>"]
    by (auto simp: deletion_policy_def)
  show "\<exists>u. RegisterRemoved \<lparr>newObjects = Map.empty, dirtyObjects = [''7'' \<mapsto> Entity 1 ''7''],
                          deletedObjects = Map.empty\<rparr> (Entity 2 ''7'') = (None, u) \<and>
        newObjects u = Map.empty \<and> dirtyObjects u = Map.empty \<and>
        deletedObjects u = [''7'' \<mapsto> Entity 2 ''7'']"
    using RegisterDeleted_policy [OF seven, of "\<lparr>newObjects = Map.empty,
                          dirtyObjects = [''7'' \<mapsto> Entity 1 ''7''],
                          deletedObjects = Map.empty\<rparr>"]
    by (auto simp: deletion_policy_def)
qed

section \<open>RegisterDirty\<close>

text \<open>
  Claim C4. For every registry and entity, RegisterDirty returns, and fails if and only if
  the identity is empty (the "has no ID" error) or is held by the deleted mapping (the
  "already registered" error). On success, if the new mapping holds the identity the whole
  registry is as before the call; otherwise the registry differs from the one before the
  call exactly in the dirty mapping, which now holds the entity at its identity, whatever
  it held there before.
\<close>

theorem RegisterDirty_outcome:
  "(\<exists>err unit'. RegisterDirty unit entity = Return (err, unit') \<and>
      (err \<noteq> None \<longleftrightarrow> GetID entity = '''' \<or> GetID entity \<in> dom (deletedObjects unit)) \<and>
      (if GetID entity = '''' then \<exists>fmt. err = Some (MissingIdentity fmt entity)
       else if GetID entity \<in> dom (deletedObjects unit)
       then \<exists>msg. err = Some (ConflictingState msg)
       else if GetID entity \<in> dom (newObjects unit) then unit' = unit
       else unit' = unit\<lparr>dirtyObjects := (dirtyObjects unit)(GetID entity \<mapsto> entity)\<rparr>)) \<and>
   (\<exists>err unit'. RegisterDirty_Model unit entity = (err, unit') \<and>
      (err \<noteq> None \<longleftrightarrow> GetID entity = '''' \<or> GetID entity \<in> dom (deletedObjects unit)) \<and>
      (if GetID entity = '''' then \<exists>fmt. err = Some (MissingIdentity fmt entity)
       else if GetID entity \<in> dom (deletedObjects unit)
       then \<exists>msg. err = Some (ConflictingState msg)
       else if GetID entity \<in> dom (newObjects unit) then unit' = unit
       else unit' = unit\<lparr>dirtyObjects := (dirtyObjects unit)(GetID entity \<mapsto> entity)\<rparr>))"
proof (rule conjI)
  show "\<exists>err unit'. RegisterDirty unit entity = Return (err, unit') \<and>
      (err \<noteq> None \<longleftrightarrow> GetID entity = '''' \<or> GetID entity \<in> dom (deletedObjects unit)) \<and>
      (if GetID entity = '''' then \<exists>fmt. err = Some (MissingIdentity fmt entity)
       else if GetID entity \<in> dom (deletedObjects unit)
       then \<exists>msg. err = Some (ConflictingState msg)
       else if GetID entity \<in> dom (newObjects unit) then unit' = unit
       else unit' = unit\<lparr>dirtyObjects := (dirtyObjects unit)(GetID entity \<mapsto> entity)\<rparr>)"
    by (auto simp: RegisterDirty_eq)
  show "\<exists>err unit'. RegisterDirty_Model unit entity = (err, unit') \<and>
      (err \<noteq> None \<longleftrightarrow> GetID entity = '''' \<or> GetID entity \<in> dom (deletedObjects unit)) \<and>
      (if GetID entity = '''' then \<exists>fmt. err = Some (MissingIdentity fmt entity)
       else if GetID entity \<in> dom (deletedObjects unit)
       then \<exists>msg. err = Some (ConflictingState msg)
       else if GetID entity \<in> dom (newObjects unit) then unit' = unit
       else unit' = unit\<lparr>dirtyObjects := (dirtyObjects unit)(GetID entity \<mapsto> entity)\<rparr>)"
    by (auto simp: RegisterDirty_Model_def)
qed

text \<open>
  The theorem at concrete registries: both errors, the silent no-op on a new identity and
  the overwriting of \<open>Entity 1\<close> by \<open>Entity 2\<close> in the dirty mapping.
\<close>

theorem RegisterDirty_outcome_witness:
  "(\<exists>fmt u. RegisterDirty \<lparr>newObjects = Map.empty, dirtyObjects = Map.empty,
                         deletedObjects = Map.empty\<rparr> (Entity 1 '''') =
           Return (Some (MissingIdentity fmt (Entity 1 '''')), u)) \<and>
   (\<exists>msg u. RegisterDirty \<lparr>newObjects = Map.empty, dirtyObjects = Map.empty,
                         deletedObjects = [''5'' \<mapsto> Entity 1 ''5'']\<rparr> (Entity 1 ''5'') =
           Return (Some (ConflictingState msg), u)) \<and>
   RegisterDirty \<lparr>newObjects = [''5'' \<mapsto> Entity 1 ''5''], dirtyObjects = Map.empty,
                  deletedObjects = Map.empty\<rparr> (Entity 2 ''5'') =
     Return (None, \<lparr>newObjects = [''5'' \<mapsto> Entity 1 ''5''], dirtyObjects = Map.empty,
                    deletedObjects = Map.empty\<rparr>) \<and>
   RegisterDirty \<lparr>newObjects = Map.empty, dirtyObjects = [''5'' \<mapsto> Entity 1 ''5''],
                  deletedObjects = Map.empty\<rparr> (Entity 2 ''5'') =
     Return (None, \<lparr>newObjects = Map.empty, dirtyObjects = [''5'' \<mapsto> Entity 2 ''5''],
                    deletedObjects = Map.empty\<rparr>) \<and>
   RegisterDirty_Model \<lparr>newObjects = [''5'' \<mapsto> Entity 1 ''5''], dirtyObjects = Map.empty,
                  deletedObjects = Map.empty\<rparr> (Entity 2 ''5'') =
     (None, \<lparr>newObjects = [''5'' \<mapsto> Entity 1 ''5''], dirtyObjects = Map.empty,
                    deletedObjects = Map.empty\<rparr>) \<and>
   RegisterDirty_Model \<lparr>newObjects = Map.empty, dirtyObjects = [''5'' \<mapsto> Entity 1 ''5''],
                  deletedObjects = Map.empty\<rparr> (Entity 2 ''5'') =
     (None, \<lparr>newObjects = Map.empty, dirtyObjects = [''5'' \<mapsto> Entity 2 ''5''],
                    deletedObjects = Map.empty\<rparr>)"
proof (intro conjI)
  show "\<exists>fmt u. RegisterDirty \<lparr>newObjects = Map.empty, dirtyObjects = Map.empty,
                         deletedObjects = Map.empty\<rparr> (Entity 1 '''') =
           Return (Some (MissingIdentity fmt (Entity 1 '''')), u)"
    using RegisterDirty_outcome [of "\<lparr>newObjects = Map.empty, dirtyObjects = Map.empty,
                         deletedObjects = Map.empty\<rparr>" "Entity 1 ''''"]
    by auto
  show "\<exists>msg u. RegisterDirty \<lparr>newObjects = Map.empty, dirtyObjects = Map.empty,
                         deletedObjects = [''5'' \<mapsto> Entity 1 ''5'']\<rparr> (Entity 1 ''5'') =
           Return (Some (ConflictingState msg), u)"
    using RegisterDirty_outcome [of "\<lparr>newObjects = Map.empty, dirtyObjects = Map.empty,
                         deletedObjects = [''5'' \<mapsto> Entity 1 ''5'']\<rparr>" "Entity 1 ''5''"]
    by auto
  show "RegisterDirty \<lparr>newObjects = [''5'' \<mapsto> Entity 1 ''5''], dirtyObjects = Map.empty,
                  deletedObjects = Map.empty\<rparr> (Entity 2 ''5'') =
     Return (None, \<lparr>newObjects = [''5'' \<mapsto> Entity 1 ''5''], dirtyObjects = Map.empty,
                    deletedObjects = Map.empty\<rparr>)"
    using RegisterDirty_outcome [of "\<lparr>newObjects = [''5'' \<mapsto> Entity 1 ''5''],
                         dirtyObjects = Map.empty, deletedObjects = Map.empty\<rparr>" "Entity 2 ''5''"]
    by auto
  show "RegisterDirty \<lparr>newObjects = Map.empty, dirtyObjects = [''5'' \<mapsto> Entity 1 ''5''],
                  deletedObjects = Map.empty\<rparr> (Entity 2 ''5'') =
     Return (None, \<lparr>newObjects = Map.empty, dirtyObjects = [''5'' \<mapsto> Entity 2 ''5''],
                    deletedObjects = Map.empty\<rparr>)"
    using RegisterDirty_outcome [of "\<lparr>newObjects = Map.empty,
                         dirtyObjects = [''5'' \<mapsto> Entity 1 ''5''],
                         deletedObjects = Map.empty\<rparr>" "Entity 2 ''5''"]
    by auto
  show "RegisterDirty_Model \<lparr>newObjects = [''5'' \<mapsto> Entity 1 ''5''], dirtyObjects = Map.empty,
                  deletedObjects = Map.empty\<rparr> (Entity 2 ''5'') =
     (None, \<lparr>newObjects = [''5'' \<mapsto> Entity 1 ''5''], dirtyObjects = Map.empty,
                    deletedObjects = Map.empty\<rparr>)"
    using RegisterDirty_outcome [of "\<lparr>newObjects = [''5'' \<mapsto> Entity 1 ''5''],
                         dirtyObjects = Map.empty, deletedObjects = Map.empty\<rparr>" "Entity 2 ''5''"]
    by auto
  show "RegisterDirty_Model \<lparr>newObjects = Map.empty, dirtyObjects = [''5'' \<mapsto> Entity 1 ''5''],
                  deletedObjects = Map.empty\<rparr> (Entity 2 ''5'') =
     (None, \<lparr>newObjects = Map.empty, dirtyObjects = [''5'' \<mapsto> Entity 2 ''5''],
                    deletedObjects = Map.empty\<rparr>)"
    using RegisterDirty_outcome [of "\<lparr>newObjects = Map.empty,
                         dirtyObjects = [''5'' \<mapsto> Entity 1 ''5''],
                         deletedObjects = Map.empty\<rparr>" "Entity 2 ''5''"]
    by auto
qed

section \<open>Failing calls change nothing\<close>

text \<open>
  Claim C5. Every registration operation is atomic: it returns, and whenever it returns an
  error the registry is exactly as before the call. In particular, for an entity whose
  identity is the empty string each operation fails with the "has no ID" error and leaves
  the registry as it was.
\<close>

theorem registration_atomic:
  "(\<exists>err unit'. RegisterNew unit entity = Return (err, unit') \<and>
      (err \<noteq> None \<longrightarrow> unit' = unit)) \<and>
   (\<exists>err unit'. RegisterDirty unit entity = Return (err, unit') \<and>
      (err \<noteq> None \<longrightarrow> unit' = unit)) \<and>
   (\<exists>err unit'. RegisterDeleted unit entity = Return (err, unit') \<and>
      (err \<noteq> None \<longrightarrow> unit' = unit)) \<and>
   (fst (RegisterNew_Model unit entity) \<noteq> None \<longrightarrow>
      snd (RegisterNew_Model unit entity) = unit) \<and>
   (fst (RegisterDirty_Model unit entity) \<noteq> None \<longrightarrow>
      snd (RegisterDirty_Model unit entity) = unit) \<and>
   (fst (RegisterRemoved unit entity) \<noteq> None \<longrightarrow>
      snd (RegisterRemoved unit entity) = unit) \<and>
   (GetID entity = '''' \<longrightarrow>
      (\<exists>fmt. RegisterNew unit entity = Return (Some (MissingIdentity fmt entity), unit)) \<and>
      (\<exists>fmt. RegisterDirty unit entity = Return (Some (MissingIdentity fmt entity), unit)) \<and>
      (\<exists>fmt. RegisterDeleted unit entity = Return (Some (MissingIdentity fmt entity), unit)) \<and>
      (\<exists>fmt. RegisterNew_Model unit entity = (Some (MissingIdentity fmt entity), unit)) \<and>
      (\<exists>fmt. RegisterDirty_Model unit entity = (Some (MissingIdentity fmt entity), unit)) \<and>
      (\<exists>fmt. RegisterRemoved unit entity = (Some (MissingIdentity fmt entity), unit)))"
proof (intro conjI)
  show "\<exists>err unit'. RegisterNew unit entity = Return (err, unit') \<and>
      (err \<noteq> None \<longrightarrow> unit' = unit)"
    by (simp add: RegisterNew_eq)
  show "\<exists>err unit'. RegisterDirty unit entity = Return (err, unit') \<and>
      (err \<noteq> None \<longrightarrow> unit' = unit)"
    by (simp add: RegisterDirty_eq)
  show "\<exists>err unit'. RegisterDeleted unit entity = Return (err, unit') \<and>
      (err \<noteq> None \<longrightarrow> unit' = unit)"
    by (simp add: RegisterDeleted_eq)
  show "fst (RegisterNew_Model unit entity) \<noteq> None \<longrightarrow>
      snd (RegisterNew_Model unit entity) = unit"
    by (simp add: RegisterNew_Model_def)
  show "fst (RegisterDirty_Model unit entity) \<noteq> None \<longrightarrow>
      snd (RegisterDirty_Model unit entity) = unit"
    by (simp add: RegisterDirty_Model_def)
  show "fst (RegisterRemoved unit entity) \<noteq> None \<longrightarrow>
      snd (RegisterRemoved unit entity) = unit"
    by (simp add: RegisterRemoved_def Let_def)
  show "GetID entity = '''' \<longrightarrow>
      (\<exists>fmt. RegisterNew unit entity = Return (Some (MissingIdentity fmt entity), unit)) \<and>
      (\<exists>fmt. RegisterDirty unit entity = Return (Some (MissingIdentity fmt entity), unit)) \<and>
      (\<exists>fmt. RegisterDeleted unit entity = Return (Some (MissingIdentity fmt entity), unit)) \<and>
      (\<exists>fmt. RegisterNew_Model unit entity = (Some (MissingIdentity fmt entity), unit)) \<and>
      (\<exists>fmt. RegisterDirty_Model unit entity = (Some (MissingIdentity fmt entity), unit)) \<and>
      (\<exists>fmt. RegisterRemoved unit entity = (Some (MissingIdentity fmt entity), unit))"
    by (simp add: RegisterNew_eq RegisterDirty_eq RegisterDeleted_eq RegisterNew_Model_def
          RegisterDirty_Model_def RegisterRemoved_def)
qed

text \<open>
  The theorem at calls that fail: a conflict for RegisterNew and RegisterDirty, the empty
  identity for RegisterDeleted and RegisterRemoved.
\<close>

theorem registration_atomic_witness:
  "(\<exists>err. RegisterNew \<lparr>newObjects = Map.empty, dirtyObjects = [''5'' \<mapsto> Entity 1 ''5''],
                        deletedObjects = Map.empty\<rparr> (Entity 2 ''5'') =
      Return (Some err, \<lparr>newObjects = Map.empty, dirtyObjects = [''5'' \<mapsto> Entity 1 ''5''],
                         deletedObjects = Map.empty\<rparr>)) \<and>
   (\<exists>err. RegisterDirty \<lparr>newObjects = Map.empty, dirtyObjects = Map.empty,
                        deletedObjects = [''5'' \<mapsto> Entity 1 ''5'']\<rparr> (Entity 2 ''5'') =
      Return (Some err, \<lparr>newObjects = Map.empty, dirtyObjects = Map.empty,
                         deletedObjects = [''5'' \<mapsto> Entity 1 ''5'']\<rparr>)) \<and>
   (\<exists>fmt. RegisterDeleted \<lparr>newObjects = Map.empty, dirtyObjects = [''5'' \<mapsto> Entity 1 ''5''],
                        deletedObjects = Map.empty\<rparr> (Entity 2 '''') =
      Return (Some (MissingIdentity fmt (Entity 2 '''')),
              \<lparr>newObjects = Map.empty, dirtyObjects = [''5'' \<mapsto> Entity 1 ''5''],
               deletedObjects = Map.empty\<rparr>)) \<and>
   snd (RegisterNew_Model \<lparr>newObjects = Map.empty, dirtyObjects = [''5'' \<mapsto> Entity 1 ''5''],
                        deletedObjects = Map.empty\<rparr> (Entity 2 ''5'')) =
      \<lparr>newObjects = Map.empty, dirtyObjects = [''5'' \<mapsto> Entity 1 ''5''],
       deletedObjects = Map.empty\<rparr> \<and>
   snd (RegisterDirty_Model \<lparr>newObjects = Map.empty, dirtyObjects = Map.empty,
                        deletedObjects = [''5'' \<mapsto> Entity 1 ''5'']\<rparr> (Entity 2 ''5'')) =
      \<lparr>newObjects = Map.empty, dirtyObjects = Map.empty,
       deletedObjects = [''5'' \<mapsto> Entity 1 ''5'']\<rparr> \<and>
   (\<exists>fmt. RegisterRemoved \<lparr>newObjects = Map.empty, dirtyObjects = [''5'' \<mapsto> Entity 1 ''5''],
                        deletedObjects = Map.empty\<rparr> (Entity 2 '''') =
      (Some (MissingIdentity fmt (Entity 2 '''')),
       \<lparr>newObjects = Map.empty, dirtyObjects = [''5'' \<mapsto> Entity 1 ''5''],
        deletedObjects = Map.empty\<rparr>))"
proof (intro conjI)
  have conflict: "RegisterNew \<lparr>newObjects = Map.empty, dirtyObjects = [''5'' \<mapsto> Entity 1 ''5''],
                        deletedObjects = Map.empty\<rparr> (Entity 2 ''5'') \<noteq> Return (None, u)" for u
    by (simp add: RegisterNew_eq)
  show "\<exists>err. RegisterNew \<lparr>newObjects = Map.empty, dirtyObjects = [''5'' \<mapsto> Entity 1 ''5''],
                        deletedObjects = Map.empty\<rparr> (Entity 2 ''5'') =
      Return (Some err, \<lparr>newObjects = Map.empty, dirtyObjects = [''5'' \<mapsto> Entity 1 ''5''],
                         deletedObjects = Map.empty\<rparr>)"
    using registration_atomic [of "\<lparr>newObjects = Map.empty,
                        dirtyObjects = [''5'' \<mapsto> Entity 1 ''5''],
                        deletedObjects = Map.empty\<rparr>" "Entity 2 ''5''"] conflict
    by (metis option.exhaust)
  have conflict': "RegisterDirty \<lparr>newObjects = Map.empty, dirtyObjects = Map.empty,
                        deletedObjects = [''5'' \<mapsto> Entity 1 ''5'']\<rparr> (Entity 2 ''5'') \<noteq>
                   Return (None, u)" for u
    by (simp add: RegisterDirty_eq)
  show "\<exists>err. RegisterDirty \<lparr>newObjects = Map.empty, dirtyObjects = Map.empty,
                        deletedObjects = [''5'' \<mapsto> Entity 1 ''5'']\<rparr> (Entity 2 ''5'') =
      Return (Some err, \<lparr>newObjects = Map.empty, dirtyObjects = Map.empty,
                         deletedObjects = [''5'' \<mapsto> Entity 1 ''5'']\<rparr>)"
    using registration_atomic [of "\<lparr>newObjects = Map.empty, dirtyObjects = Map.empty,
                        deletedObjects = [''5'' \<mapsto> Entity 1 ''5'']\<rparr>" "Entity 2 ''5''"] conflict'
    by (metis option.exhaust)
  show "\<exists>fmt. RegisterDeleted \<lparr>newObjects = Map.empty, dirtyObjects = [''5'' \<mapsto> Entity 1 ''5''],
                        deletedObjects = Map.empty\<rparr> (Entity 2 '''') =
      Return (Some (MissingIdentity fmt (Entity 2 '''')),
              \<lparr>newObjects = Map.empty, dirtyObjects = [''5'' \<mapsto> Entity 1 ''5''],
               deletedObjects = Map.empty\<rparr>)"
    using registration_atomic [of "\<lparr>newObjects = Map.empty,
                        dirtyObjects = [''5'' \<mapsto> Entity 1 ''5''],
                        deletedObjects = Map.empty\<rparr>" "Entity 2 ''''"]
    by simp
  have "fst (RegisterNew_Model \<lparr>newObjects = Map.empty, dirtyObjects = [''5'' \<mapsto> Entity 1 ''5''],
                        deletedObjects = Map.empty\<rparr> (Entity 2 ''5'')) \<noteq> None"
    by (simp add: RegisterNew_Model_def)
  then show "snd (RegisterNew_Model \<lparr>newObjects = Map.empty,
                        dirtyObjects = [''5'' \<mapsto> Entity 1 ''5''],
                        deletedObjects = Map.empty\<rparr> (Entity 2 ''5'')) =
      \<lparr>newObjects = Map.empty, dirtyObjects = [''5'' \<mapsto> Entity 1 ''5''],
       deletedObjects = Map.empty\<rparr>"
    using registration_atomic [of "\<lparr>newObjects = Map.empty,
                        dirtyObjects = [''5'' \<mapsto> Entity 1 ''5''],
                        deletedObjects = Map.empty\<rparr>" "Entity 2 ''5''"]
    by blast
  have "fst (RegisterDirty_Model \<lparr>newObjects = Map.empty, dirtyObjects = Map.empty,
                        deletedObjects = [''5'' \<mapsto> Entity 1 ''5'']\<rparr> (Entity 2 ''5'')) \<noteq> None"
    by (simp add: RegisterDirty_Model_def)
  then show "snd (RegisterDirty_Model \<lparr>newObjects = Map.empty, dirtyObjects = Map.empty,
                        deletedObjects = [''5'' \<mapsto> Entity 1 ''5'']\<rparr> (Entity 2 ''5'')) =
      \<lparr>newObjects = Map.empty, dirtyObjects = Map.empty,
       deletedObjects = [''5'' \<mapsto> Entity 1 ''5'']\<rparr>"
    using registration_atomic [of "\<lparr>newObjects = Map.empty, dirtyObjects = Map.empty,
                        deletedObjects = [''5'' \<mapsto> Entity 1 ''5'']\<rparr>" "Entity 2 ''5''"]
    by blast
  show "\<exists>fmt. RegisterRemoved \<lparr>newObjects = Map.empty, dirtyObjects = [''5'' \<mapsto> Entity 1 ''5''],
                        deletedObjects = Map.empty\<rparr> (Entity 2 '''') =
      (Some (MissingIdentity fmt (Entity 2 '''')),
       \<lparr>newObjects = Map.empty, dirtyObjects = [''5'' \<mapsto> Entity 1 ''5''],
        deletedObjects = Map.empty\<rparr>)"
    using registration_atomic [of "\<lparr>newObjects = Map.empty,
                        dirtyObjects = [''5'' \<mapsto> Entity 1 ''5''],
                        deletedObjects = Map.empty\<rparr>" "Entity 2 ''''"]
    by simp
qed

section \<open>How many mappings hold an identity after a successful call\<close>

text \<open>
  Claim C6 says that after any successful registration the identity of the entity is in
  exactly one mapping. RegisterNew followed by RegisterDeleted (RegisterRemoved) of the same
  entity, both successful, leaves the identity in none of the three: the pending creation
  is cancelled, as the comment in the source and the test
  \<^verbatim>\<open>TestRegisterDeletedDeletesNewObject\<close> say.
\<close>

theorem new_then_deleted_in_no_mapping:
  "RegisterNew NewUnitOfWork (Entity 1 ''5'') =
     Return (None, \<lparr>newObjects = [''5'' \<mapsto> Entity 1 ''5''], dirtyObjects = Map.empty,
                    deletedObjects = Map.empty\<rparr>) \<and>
   RegisterDeleted \<lparr>newObjects = [''5'' \<mapsto> Entity 1 ''5''], dirtyObjects = Map.empty,
                    deletedObjects = Map.empty\<rparr> (Entity 1 ''5'') =
     Return (None, \<lparr>newObjects = Map.empty, dirtyObjects = Map.empty,
                    deletedObjects = Map.empty\<rparr>) \<and>
   RegisterNew_Model NewUnitOfWork (Entity 1 ''5'') =
     (None, \<lparr>newObjects = [''5'' \<mapsto> Entity 1 ''5''], dirtyObjects = Map.empty,
             deletedObjects = Map.empty\<rparr>) \<and>
   RegisterRemoved \<lparr>newObjects = [''5'' \<mapsto> Entity 1 ''5''], dirtyObjects = Map.empty,
                    deletedObjects = Map.empty\<rparr> (Entity 1 ''5'') =
     (None, \<lparr>newObjects = Map.empty, dirtyObjects = Map.empty, deletedObjects = Map.empty\<rparr>) \<and>
   registrations \<lparr>newObjects = Map.empty, dirtyObjects = Map.empty,
                  deletedObjects = Map.empty\<rparr> ''5'' = 0"
  by (simp add: RegisterNew_eq RegisterDeleted_eq RegisterNew_Model_def RegisterRemoved_def
        NewUnitOfWork_def registrations_def)

text \<open>
  Claim C6, as amended. On a registry that holds the identity of the entity in at most one
  mapping: after a successful RegisterNew or RegisterDirty the identity is in exactly one
  mapping; after a successful RegisterDeleted (RegisterRemoved) it is in exactly one mapping
  if the new mapping did not hold it before the call, and in none if it did.
\<close>

theorem successful_registration_count:
  assumes "registrations unit (GetID entity) \<le> 1"
  shows "(RegisterNew unit entity = Return (None, unit') \<longrightarrow>
            registrations unit' (GetID entity) = 1) \<and>
         (RegisterDirty unit entity = Return (None, unit') \<longrightarrow>
            registrations unit' (GetID entity) = 1) \<and>
         (RegisterDeleted unit entity = Return (None, unit') \<longrightarrow>
            registrations unit' (GetID entity) =
              (if GetID entity \<in> dom (newObjects unit) then 0 else 1)) \<and>
         (RegisterNew_Model unit entity = (None, unit') \<longrightarrow>
            registrations unit' (GetID entity) = 1) \<and>
         (RegisterDirty_Model unit entity = (None, unit') \<longrightarrow>
            registrations unit' (GetID entity) = 1) \<and>
         (RegisterRemoved unit entity = (None, unit') \<longrightarrow>
            registrations unit' (GetID entity) =
              (if GetID entity \<in> dom (newObjects unit) then 0 else 1))"
proof (intro conjI impI)
  assume "RegisterNew unit entity = Return (None, unit')"
  then show "registrations unit' (GetID entity) = 1"
    by (auto simp: RegisterNew_eq registrations_def split: if_splits)
next
  assume "RegisterDirty unit entity = Return (None, unit')"
  with assms show "registrations unit' (GetID entity) = 1"
    by (auto simp: RegisterDirty_eq registrations_def split: if_splits)
next
  assume "RegisterDeleted unit entity = Return (None, unit')"
  with assms show "registrations unit' (GetID entity) =
      (if GetID entity \<in> dom (newObjects unit) then 0 else 1)"
    by (auto simp: RegisterDeleted_eq registrations_def split: if_splits)
next
  assume "RegisterNew_Model unit entity = (None, unit')"
  then show "registrations unit' (GetID entity) = 1"
    by (auto simp: RegisterNew_Model_def registrations_def split: if_splits)
next
  assume "RegisterDirty_Model unit entity = (None, unit')"
  with assms show "registrations unit' (GetID entity) = 1"
    by (auto simp: RegisterDirty_Model_def registrations_def split: if_splits)
next
  assume "RegisterRemoved unit entity = (None, unit')"
  with assms show "registrations unit' (GetID entity) =
      (if GetID entity \<in> dom (newObjects unit) then 0 else 1)"
    by (auto simp: RegisterRemoved_def registrations_def Let_def split: if_splits)
qed

text \<open>
  The theorem at the empty registry, where each of RegisterNew, RegisterDirty and
  RegisterDeleted succeeds on identity \<open>7\<close> and leaves it in one mapping, and at the
  registry holding \<open>7\<close> as new, where RegisterRemoved leaves it in none.
\<close>

theorem successful_registration_count_witness:
  "registrations \<lparr>newObjects = Map.empty, dirtyObjects = Map.empty,
                  deletedObjects = Map.empty\<rparr> (GetID (Entity 1 ''7'')) \<le> 1 \<and>
   registrations \<lparr>newObjects = [''7'' \<mapsto> Entity 1 ''7''], dirtyObjects = Map.empty,
                  deletedObjects = Map.empty\<rparr> ''7'' = 1 \<and>
   registrations \<lparr>newObjects = Map.empty, dirtyObjects = [''7'' \<mapsto> Entity 1 ''7''],
                  deletedObjects = Map.empty\<rparr> ''7'' = 1 \<and>
   registrations \<lparr>newObjects = Map.empty, dirtyObjects = Map.empty,
                  deletedObjects = [''7'' \<mapsto> Entity 1 ''7'']\<rparr> ''7'' = 1 \<and>
   registrations \<lparr>newObjects = [''7'' \<mapsto> Entity 1 ''7''], dirtyObjects = Map.empty,
                  deletedObjects = Map.empty\<rparr> (GetID (Entity 2 ''7'')) \<le> 1 \<and>
   registrations (snd (RegisterRemoved \<lparr>newObjects = [''7'' \<mapsto> Entity 1 ''7''],
                  dirtyObjects = Map.empty, deletedObjects = Map.empty\<rparr> (Entity 2 ''7'')))
     ''7'' = 0"
proof -
  let ?u = "\<lparr>newObjects = Map.empty, dirtyObjects = Map.empty, deletedObjects = Map.empty\<rparr>"
  have pre: "registrations ?u (GetID (Entity 1 ''7'')) \<le> 1"
    by (simp add: registrations_def)
  have n: "RegisterNew ?u (Entity 1 ''7'') =
      Return (None, \<lparr>newObjects = [''7'' \<mapsto> Entity 1 ''7''], dirtyObjects = Map.empty,
                     deletedObjects = Map.empty\<rparr>)"
    by (simp add: RegisterNew_eq)
  have d: "RegisterDirty_Model ?u (Entity 1 ''7'') =
      (None, \<lparr>newObjects = Map.empty, dirtyObjects = [''7'' \<mapsto> Entity 1 ''7''],
              deletedObjects = Map.empty\<rparr>)"
    by (simp add: RegisterDirty_Model_def)
  have r: "RegisterDeleted ?u (Entity 1 ''7'') =
      Return (None, \<lparr>newObjects = Map.empty, dirtyObjects = Map.empty,
                     deletedObjects = [''7'' \<mapsto> Entity 1 ''7'']\<rparr>)"
    by (simp add: RegisterDeleted_eq)
  have pre': "registrations \<lparr>newObjects = [''7'' \<mapsto> Entity 1 ''7''],
      dirtyObjects = Map.empty, deletedObjects = Map.empty\<rparr> (GetID (Entity 2 ''7'')) \<le> 1"
    by (simp add: registrations_def)
  have c: "RegisterRemoved \<lparr>newObjects = [''7'' \<mapsto> Entity 1 ''7''],
      dirtyObjects = Map.empty, deletedObjects = Map.empty\<rparr> (Entity 2 ''7'') = (None, ?u)"
    by (simp add: RegisterRemoved_def)
  from pre n d r pre' c
    successful_registration_count [OF pre', of ?u]
    successful_registration_count [OF pre, of "\<lparr>newObjects = [''7'' \<mapsto> Entity 1 ''7''],
       dirtyObjects = Map.empty, deletedObjects = Map.empty\<rparr>"]
    successful_registration_count [OF pre, of "\<lparr>newObjects = Map.empty,
       dirtyObjects = [''7'' \<mapsto> Entity 1 ''7''], deletedObjects = Map.empty\<rparr>"]
    successful_registration_count [OF pre, of "\<lparr>newObjects = Map.empty,
       dirtyObjects = Map.empty, deletedObjects = [''7'' \<mapsto> Entity 1 ''7'']\<rparr>"]
  show ?thesis by simp
qed

section \<open>Rejected transitions\<close>

text \<open>
  Claim C7 says that RegisterDeleted of an identity already in the deleted state is rejected
  with the "already registered" error. It is accepted: the second RegisterDeleted
  (RegisterRemoved) of the same entity returns no error and leaves the registry as it
  was, by the guard on the insertion into the deleted mapping.
\<close>

theorem deleted_twice_is_accepted:
  "RegisterDeleted NewUnitOfWork (Entity 1 ''5'') =
     Return (None, \<lparr>newObjects = Map.empty, dirtyObjects = Map.empty,
                    deletedObjects = [''5'' \<mapsto> Entity 1 ''5'']\<rparr>) \<and>
   RegisterDeleted \<lparr>newObjects = Map.empty, dirtyObjects = Map.empty,
                    deletedObjects = [''5'' \<mapsto> Entity 1 ''5'']\<rparr> (Entity 1 ''5'') =
     Return (None, \<lparr>newObjects = Map.empty, dirtyObjects = Map.empty,
                    deletedObjects = [''5'' \<mapsto> Entity 1 ''5'']\<rparr>) \<and>
   RegisterRemoved NewUnitOfWork (Entity 1 ''5'') =
     (None, \<lparr>newObjects = Map.empty, dirtyObjects = Map.empty,
             deletedObjects = [''5'' \<mapsto> Entity 1 ''5'']\<rparr>) \<and>
   RegisterRemoved \<lparr>newObjects = Map.empty, dirtyObjects = Map.empty,
                    deletedObjects = [''5'' \<mapsto> Entity 1 ''5'']\<rparr> (Entity 1 ''5'') =
     (None, \<lparr>newObjects = Map.empty, dirtyObjects = Map.empty,
             deletedObjects = [''5'' \<mapsto> Entity 1 ''5'']\<rparr>)"
  by (simp add: RegisterDeleted_eq RegisterRemoved_def NewUnitOfWork_def)

text \<open>
  Claim C7, as amended. For every entity with a non-empty identity: RegisterNew is rejected
  with the "already registered" error and leaves the registry unchanged when the identity
  is held by the dirty, the deleted or the new mapping; RegisterDirty is rejected in the
  same way when the identity is held by the deleted mapping; RegisterDeleted
  (RegisterRemoved) of an identity in the deleted state (held by the deleted mapping and by
  no other) is not rejected: it returns no error and leaves the registry unchanged.
\<close>

theorem rejected_transitions:
  assumes "GetID entity \<noteq> ''''"
  shows "(GetID entity \<in> dom (dirtyObjects unit) \<or> GetID entity \<in> dom (deletedObjects unit) \<or>
          GetID entity \<in> dom (newObjects unit) \<longrightarrow>
            (\<exists>msg. RegisterNew unit entity = Return (Some (ConflictingState msg), unit)) \<and>
            (\<exists>msg. RegisterNew_Model unit entity = (Some (ConflictingState msg), unit))) \<and>
         (GetID entity \<in> dom (deletedObjects unit) \<longrightarrow>
            (\<exists>msg. RegisterDirty unit entity = Return (Some (ConflictingState msg), unit)) \<and>
            (\<exists>msg. RegisterDirty_Model unit entity = (Some (ConflictingState msg), unit))) \<and>
         (GetID entity \<in> dom (deletedObjects unit) \<and>
          GetID entity \<notin> dom (newObjects unit) \<and> GetID entity \<notin> dom (dirtyObjects unit) \<longrightarrow>
            RegisterDeleted unit entity = Return (None, unit) \<and>
            RegisterRemoved unit entity = (None, unit))"
proof (intro conjI impI)
  assume "GetID entity \<in> dom (dirtyObjects unit) \<or> GetID entity \<in> dom (deletedObjects unit) \<or>
          GetID entity \<in> dom (newObjects unit)"
  with assms show "\<exists>msg. RegisterNew unit entity = Return (Some (ConflictingState msg), unit)"
    by (auto simp: RegisterNew_eq)
next
  assume "GetID entity \<in> dom (dirtyObjects unit) \<or> GetID entity \<in> dom (deletedObjects unit) \<or>
          GetID entity \<in> dom (newObjects unit)"
  with assms show "\<exists>msg. RegisterNew_Model unit entity = (Some (ConflictingState msg), unit)"
    by (auto simp: RegisterNew_Model_def)
next
  assume "GetID entity \<in> dom (deletedObjects unit)"
  with assms show "\<exists>msg. RegisterDirty unit entity = Return (Some (ConflictingState msg), unit)"
    by (auto simp: RegisterDirty_eq)
next
  assume "GetID entity \<in> dom (deletedObjects unit)"
  with assms show "\<exists>msg. RegisterDirty_Model unit entity = (Some (ConflictingState msg), unit)"
    by (auto simp: RegisterDirty_Model_def)
next
  assume d: "GetID entity \<in> dom (deletedObjects unit) \<and>
          GetID entity \<notin> dom (newObjects unit) \<and> GetID entity \<notin> dom (dirtyObjects unit)"
  then have "(dirtyObjects unit)(GetID entity := None) = dirtyObjects unit"
    by (auto simp: domIff)
  with assms d show "RegisterDeleted unit entity = Return (None, unit)"
    by (simp add: RegisterDeleted_eq)
next
  assume d: "GetID entity \<in> dom (deletedObjects unit) \<and>
          GetID entity \<notin> dom (newObjects unit) \<and> GetID entity \<notin> dom (dirtyObjects unit)"
  then have "(dirtyObjects unit)(GetID entity := None) = dirtyObjects unit"
    by (auto simp: domIff)
  with assms d show "RegisterRemoved unit entity = (None, unit)"
    by (auto simp: RegisterRemoved_def Let_def domIff)
qed

text \<open>
  The theorem at the registries that hold identity \<open>5\<close> as dirty and as deleted.
\<close>

theorem rejected_transitions_witness:
  "(\<exists>msg. RegisterNew \<lparr>newObjects = Map.empty, dirtyObjects = [''5'' \<mapsto> Entity 1 ''5''],
                        deletedObjects = Map.empty\<rparr> (Entity 1 ''5'') =
      Return (Some (ConflictingState msg),
              \<lparr>newObjects = Map.empty, dirtyObjects = [''5'' \<mapsto> Entity 1 ''5''],
               deletedObjects = Map.empty\<rparr>)) \<and>
   (\<exists>msg. RegisterDirty \<lparr>newObjects = Map.empty, dirtyObjects = Map.empty,
                        deletedObjects = [''5'' \<mapsto> Entity 1 ''5'']\<rparr> (Entity 1 ''5'') =
      Return (Some (ConflictingState msg),
              \<lparr>newObjects = Map.empty, dirtyObjects = Map.empty,
               deletedObjects = [''5'' \<mapsto> Entity 1 ''5'']\<rparr>)) \<and>
   (\<exists>msg. RegisterDirty_Model \<lparr>newObjects = Map.empty, dirtyObjects = Map.empty,
                        deletedObjects = [''5'' \<mapsto> Entity 1 ''5'']\<rparr> (Entity 1 ''5'') =
      (Some (ConflictingState msg),
       \<lparr>newObjects = Map.empty, dirtyObjects = Map.empty,
        deletedObjects = [''5'' \<mapsto> Entity 1 ''5'']\<rparr>)) \<and>
   RegisterDeleted \<lparr>newObjects = Map.empty, dirtyObjects = Map.empty,
                    deletedObjects = [''5'' \<mapsto> Entity 1 ''5'']\<rparr> (Entity 2 ''5'') =
     Return (None, \<lparr>newObjects = Map.empty, dirtyObjects = Map.empty,
                    deletedObjects = [''5'' \<mapsto> Entity 1 ''5'']\<rparr>) \<and>
   RegisterRemoved \<lparr>newObjects = Map.empty, dirtyObjects = Map.empty,
                    deletedObjects = [''5'' \<mapsto> Entity 1 ''5'']\<rparr> (Entity 2 ''5'') =
     (None, \<lparr>newObjects = Map.empty, dirtyObjects = Map.empty,
             deletedObjects = [''5'' \<mapsto> Entity 1 ''5'']\<rparr>)"
proof -
  have one: "GetID (Entity 1 ''5'') \<noteq> ''''" and two: "GetID (Entity 2 ''5'') \<noteq> ''''"
    by simp_all
  from rejected_transitions [OF one, of "\<lparr>newObjects = Map.empty,
           dirtyObjects = [''5'' \<mapsto> Entity 1 ''5''], deletedObjects = Map.empty\<rparr>"]
       rejected_transitions [OF one, of "\<lparr>newObjects = Map.empty, dirtyObjects = Map.empty,
           deletedObjects = [''5'' \<mapsto> Entity 1 ''5'']\<rparr>"]
       rejected_transitions [OF two, of "\<lparr>newObjects = Map.empty, dirtyObjects = Map.empty,
           deletedObjects = [''5'' \<mapsto> Entity 1 ''5'']\<rparr>"]
  show ?thesis by simp
qed

section \<open>The validation helper\<close>

text \<open>
  Claim C8. Called with one of its three category names, the helper
  (\<open>assertEntityNotRegisteredAs\<close>: new, dirty, deleted; \<open>assertModelNotRegisteredAs\<close>: new,
  dirty, removed) does not panic: it returns the "already registered" error if and only if
  that category's mapping holds the identity of the entity, and no error otherwise. Called
  with any other name it panics, for every entity and registry.
\<close>

theorem assertNotRegisteredAs_contract:
  "(\<exists>err. assertEntityNotRegisteredAs unit entity ''new'' = Return err \<and>
      ((\<exists>msg. err = Some (ConflictingState msg)) \<longleftrightarrow> GetID entity \<in> dom (newObjects unit)) \<and>
      (err = None \<longleftrightarrow> GetID entity \<notin> dom (newObjects unit))) \<and>
   (\<exists>err. assertEntityNotRegisteredAs unit entity ''dirty'' = Return err \<and>
      ((\<exists>msg. err = Some (ConflictingState msg)) \<longleftrightarrow> GetID entity \<in> dom (dirtyObjects unit)) \<and>
      (err = None \<longleftrightarrow> GetID entity \<notin> dom (dirtyObjects unit))) \<and>
   (\<exists>err. assertEntityNotRegisteredAs unit entity ''deleted'' = Return err \<and>
      ((\<exists>msg. err = Some (ConflictingState msg)) \<longleftrightarrow>
         GetID entity \<in> dom (deletedObjects unit)) \<and>
      (err = None \<longleftrightarrow> GetID entity \<notin> dom (deletedObjects unit))) \<and>
   (registeredAs \<notin> {''new'', ''dirty'', ''deleted''} \<longrightarrow>
      (\<exists>msg. assertEntityNotRegisteredAs unit entity registeredAs = Panic msg)) \<and>
   (\<exists>err. assertModelNotRegisteredAs unit entity ''new'' = Return err \<and>
      ((\<exists>msg. err = Some (ConflictingState msg)) \<longleftrightarrow> GetID entity \<in> dom (newObjects unit)) \<and>
      (err = None \<longleftrightarrow> GetID entity \<notin> dom (newObjects unit))) \<and>
   (\<exists>err. assertModelNotRegisteredAs unit entity ''dirty'' = Return err \<and>
      ((\<exists>msg. err = Some (ConflictingState msg)) \<longleftrightarrow> GetID entity \<in> dom (dirtyObjects unit)) \<and>
      (err = None \<longleftrightarrow> GetID entity \<notin> dom (dirtyObjects unit))) \<and>
   (\<exists>err. assertModelNotRegisteredAs unit entity ''removed'' = Return err \<and>
      ((\<exists>msg. err = Some (ConflictingState msg)) \<longleftrightarrow>
         GetID entity \<in> dom (deletedObjects unit)) \<and>
      (err = None \<longleftrightarrow> GetID entity \<notin> dom (deletedObjects unit))) \<and>
   (registeredAs \<notin> {''new'', ''dirty'', ''removed''} \<longrightarrow>
      (\<exists>msg. assertModelNotRegisteredAs unit entity registeredAs = Panic msg))"
proof (intro conjI)
  show "\<exists>err. assertEntityNotRegisteredAs unit entity ''new'' = Return err \<and>
      ((\<exists>msg. err = Some (ConflictingState msg)) \<longleftrightarrow> GetID entity \<in> dom (newObjects unit)) \<and>
      (err = None \<longleftrightarrow> GetID entity \<notin> dom (newObjects unit))"
    by (auto simp: assertEntityNotRegisteredAs_def split: option.splits)
  show "\<exists>err. assertEntityNotRegisteredAs unit entity ''dirty'' = Return err \<and>
      ((\<exists>msg. err = Some (ConflictingState msg)) \<longleftrightarrow> GetID entity \<in> dom (dirtyObjects unit)) \<and>
      (err = None \<longleftrightarrow> GetID entity \<notin> dom (dirtyObjects unit))"
    by (auto simp: assertEntityNotRegisteredAs_def split: option.splits)
  show "\<exists>err. assertEntityNotRegisteredAs unit entity ''deleted'' = Return err \<and>
      ((\<exists>msg. err = Some (ConflictingState msg)) \<longleftrightarrow>
         GetID entity \<in> dom (deletedObjects unit)) \<and>
      (err = None \<longleftrightarrow> GetID entity \<notin> dom (deletedObjects unit))"
    by (auto simp: assertEntityNotRegisteredAs_def split: option.splits)
  show "registeredAs \<notin> {''new'', ''dirty'', ''deleted''} \<longrightarrow>
      (\<exists>msg. assertEntityNotRegisteredAs unit entity registeredAs = Panic msg)"
    by (simp add: assertEntityNotRegisteredAs_def)
  show "\<exists>err. assertModelNotRegisteredAs unit entity ''new'' = Return err \<and>
      ((\<exists>msg. err = Some (ConflictingState msg)) \<longleftrightarrow> GetID entity \<in> dom (newObjects unit)) \<and>
      (err = None \<longleftrightarrow> GetID entity \<notin> dom (newObjects unit))"
    by (auto simp: assertModelNotRegisteredAs_def split: option.splits)
  show "\<exists>err. assertModelNotRegisteredAs unit entity ''dirty'' = Return err \<and>
      ((\<exists>msg. err = Some (ConflictingState msg)) \<longleftrightarrow> GetID entity \<in> dom (dirtyObjects unit)) \<and>
      (err = None \<longleftrightarrow> GetID entity \<notin> dom (dirtyObjects unit))"
    by (auto simp: assertModelNotRegisteredAs_def split: option.splits)
  show "\<exists>err. assertModelNotRegisteredAs unit entity ''removed'' = Return err \<and>
      ((\<exists>msg. err = Some (ConflictingState msg)) \<longleftrightarrow>
         GetID entity \<in> dom (deletedObjects unit)) \<and>
      (err = None \<longleftrightarrow> GetID entity \<notin> dom (deletedObjects unit))"
    by (auto simp: assertModelNotRegisteredAs_def split: option.splits)
  show "registeredAs \<notin> {''new'', ''dirty'', ''removed''} \<longrightarrow>
      (\<exists>msg. assertModelNotRegisteredAs unit entity registeredAs = Panic msg)"
    by (simp add: assertModelNotRegisteredAs_def)
qed

text \<open>
  The theorem at the name \<open>some-state\<close> of the test
  \<^verbatim>\<open>TestAssertEntityNotRegisteredAsPanicsOnUknownState\<close>, at the name \<open>deleted\<close> for the
  helper of the Model revision, which does not know it, and at a registry that holds identity
  \<open>5\<close> as deleted.
\<close>

theorem assertNotRegisteredAs_contract_witness:
  "(\<exists>msg. assertEntityNotRegisteredAs NewUnitOfWork (Entity 1 ''5'') ''some-state'' = Panic msg) \<and>
   (\<exists>msg. assertModelNotRegisteredAs NewUnitOfWork (Entity 1 ''5'') ''some-state'' = Panic msg) \<and>
   (\<exists>msg. assertModelNotRegisteredAs NewUnitOfWork (Entity 1 ''5'') ''deleted'' = Panic msg) \<and>
   (\<exists>msg. assertEntityNotRegisteredAs \<lparr>newObjects = Map.empty, dirtyObjects = Map.empty,
              deletedObjects = [''5'' \<mapsto> Entity 1 ''5'']\<rparr> (Entity 2 ''5'') ''deleted'' =
            Return (Some (ConflictingState msg))) \<and>
   assertEntityNotRegisteredAs \<lparr>newObjects = Map.empty, dirtyObjects = Map.empty,
              deletedObjects = [''5'' \<mapsto> Entity 1 ''5'']\<rparr> (Entity 2 ''5'') ''new'' =
     Return None"
proof (intro conjI)
  show "\<exists>msg. assertEntityNotRegisteredAs NewUnitOfWork (Entity 1 ''5'') ''some-state'' = Panic msg"
    using assertNotRegisteredAs_contract [of NewUnitOfWork "Entity 1 ''5''" "''some-state''"]
    by simp
  show "\<exists>msg. assertModelNotRegisteredAs NewUnitOfWork (Entity 1 ''5'') ''some-state'' = Panic msg"
    using assertNotRegisteredAs_contract [of NewUnitOfWork "Entity 1 ''5''" "''some-state''"]
    by simp
  show "\<exists>msg. assertModelNotRegisteredAs NewUnitOfWork (Entity 1 ''5'') ''deleted'' = Panic msg"
    using assertNotRegisteredAs_contract [of NewUnitOfWork "Entity 1 ''5''" "''deleted''"]
    by simp
  show "\<exists>msg. assertEntityNotRegisteredAs \<lparr>newObjects = Map.empty, dirtyObjects = Map.empty,
              deletedObjects = [''5'' \<mapsto> Entity 1 ''5'']\<rparr> (Entity 2 ''5'') ''deleted'' =
            Return (Some (ConflictingState msg))"
    using assertNotRegisteredAs_contract [of "\<lparr>newObjects = Map.empty, dirtyObjects = Map.empty,
              deletedObjects = [''5'' \<mapsto> Entity 1 ''5'']\<rparr>" "Entity 2 ''5''" "''new''"]
    by auto
  show "assertEntityNotRegisteredAs \<lparr>newObjects = Map.empty, dirtyObjects = Map.empty,
              deletedObjects = [''5'' \<mapsto> Entity 1 ''5'']\<rparr> (Entity 2 ''5'') ''new'' =
     Return None"
    using assertNotRegisteredAs_contract [of "\<lparr>newObjects = Map.empty, dirtyObjects = Map.empty,
              deletedObjects = [''5'' \<mapsto> Entity 1 ''5'']\<rparr>" "Entity 2 ''5''" "''new''"]
    by auto
qed

section \<open>Frame and dependence on the identity\<close>

text \<open>
  Claim C9. Every registration operation, on every registry and entity, failing or not,
  leaves each of the three mappings as it was at every key other than the identity of its
  argument.
\<close>

theorem registration_frame:
  assumes "k \<noteq> GetID entity"
  shows "(\<exists>err unit'. RegisterNew unit entity = Return (err, unit') \<and> agree_at unit unit' k) \<and>
         (\<exists>err unit'. RegisterDirty unit entity = Return (err, unit') \<and> agree_at unit unit' k) \<and>
         (\<exists>err unit'. RegisterDeleted unit entity = Return (err, unit') \<and>
            agree_at unit unit' k) \<and>
         agree_at unit (snd (RegisterNew_Model unit entity)) k \<and>
         agree_at unit (snd (RegisterDirty_Model unit entity)) k \<and>
         agree_at unit (snd (RegisterRemoved unit entity)) k"
proof (intro conjI)
  show "\<exists>err unit'. RegisterNew unit entity = Return (err, unit') \<and> agree_at unit unit' k"
    using assms by (simp add: RegisterNew_eq agree_at_def)
  show "\<exists>err unit'. RegisterDirty unit entity = Return (err, unit') \<and> agree_at unit unit' k"
    using assms by (simp add: RegisterDirty_eq agree_at_def)
  show "\<exists>err unit'. RegisterDeleted unit entity = Return (err, unit') \<and> agree_at unit unit' k"
    using assms by (simp add: RegisterDeleted_eq agree_at_def)
  show "agree_at unit (snd (RegisterNew_Model unit entity)) k"
    using assms by (simp add: RegisterNew_Model_def agree_at_def)
  show "agree_at unit (snd (RegisterDirty_Model unit entity)) k"
    using assms by (simp add: RegisterDirty_Model_def agree_at_def)
  show "agree_at unit (snd (RegisterRemoved unit entity)) k"
    using assms by (simp add: RegisterRemoved_def agree_at_def Let_def)
qed

text \<open>
  The theorem at a registry with three identities, one in each mapping: deleting identity
  \<open>7\<close> leaves the entries of \<open>5\<close> and \<open>9\<close> as they were.
\<close>

theorem registration_frame_witness:
  "(\<exists>err u. RegisterDeleted \<lparr>newObjects = [''5'' \<mapsto> Entity 1 ''5''],
                 dirtyObjects = [''7'' \<mapsto> Entity 2 ''7''],
                 deletedObjects = [''9'' \<mapsto> Entity 3 ''9'']\<rparr> (Entity 4 ''7'') =
               Return (err, u) \<and>
             newObjects u ''5'' = Some (Entity 1 ''5'') \<and> dirtyObjects u ''5'' = None \<and>
             deletedObjects u ''5'' = None) \<and>
   deletedObjects (snd (RegisterRemoved \<lparr>newObjects = [''5'' \<mapsto> Entity 1 ''5''],
                 dirtyObjects = [''7'' \<mapsto> Entity 2 ''7''],
                 deletedObjects = [''9'' \<mapsto> Entity 3 ''9'']\<rparr> (Entity 4 ''7''))) ''9'' =
     Some (Entity 3 ''9'')"
proof (rule conjI)
  have five: "''5'' \<noteq> GetID (Entity 4 ''7'')" and nine: "''9'' \<noteq> GetID (Entity 4 ''7'')"
    by simp_all
  show "\<exists>err u. RegisterDeleted \<lparr>newObjects = [''5'' \<mapsto> Entity 1 ''5''],
                 dirtyObjects = [''7'' \<mapsto> Entity 2 ''7''],
                 deletedObjects = [''9'' \<mapsto> Entity 3 ''9'']\<rparr> (Entity 4 ''7'') =
               Return (err, u) \<and>
             newObjects u ''5'' = Some (Entity 1 ''5'') \<and> dirtyObjects u ''5'' = None \<and>
             deletedObjects u ''5'' = None"
    using registration_frame [OF five, of "\<lparr>newObjects = [''5'' \<mapsto> Entity 1 ''5''],
                 dirtyObjects = [''7'' \<mapsto> Entity 2 ''7''],
                 deletedObjects = [''9'' \<mapsto> Entity 3 ''9'']\<rparr>"]
    by (auto simp: agree_at_def)
  show "deletedObjects (snd (RegisterRemoved \<lparr>newObjects = [''5'' \<mapsto> Entity 1 ''5''],
                 dirtyObjects = [''7'' \<mapsto> Entity 2 ''7''],
                 deletedObjects = [''9'' \<mapsto> Entity 3 ''9'']\<rparr> (Entity 4 ''7''))) ''9'' =
     Some (Entity 3 ''9'')"
    using registration_frame [OF nine, of "\<lparr>newObjects = [''5'' \<mapsto> Entity 1 ''5''],
                 dirtyObjects = [''7'' \<mapsto> Entity 2 ''7''],
                 deletedObjects = [''9'' \<mapsto> Entity 3 ''9'']\<rparr>"]
    by (simp add: agree_at_def)
qed

text \<open>
  Claim C10. The outcome of a registration operation depends on the entity only through its
  identity: for two entities with the same identity and any registry, each operation
  returns the same outcome for both (no error for both, or the same kind of error with the
  same text apart from the rendered entity), and the two registries after the call have
  the same key sets in all three mappings and agree at every key other than that identity.
\<close>

theorem outcome_by_identity_only:
  assumes "GetID e1 = GetID e2" and "k \<noteq> GetID e1"
  shows "(\<exists>err1 unit1 err2 unit2.
            RegisterNew unit e1 = Return (err1, unit1) \<and>
            RegisterNew unit e2 = Return (err2, unit2) \<and>
            same_outcome err1 err2 \<and> same_keys unit1 unit2 \<and> agree_at unit1 unit2 k) \<and>
         (\<exists>err1 unit1 err2 unit2.
            RegisterDirty unit e1 = Return (err1, unit1) \<and>
            RegisterDirty unit e2 = Return (err2, unit2) \<and>
            same_outcome err1 err2 \<and> same_keys unit1 unit2 \<and> agree_at unit1 unit2 k) \<and>
         (\<exists>err1 unit1 err2 unit2.
            RegisterDeleted unit e1 = Return (err1, unit1) \<and>
            RegisterDeleted unit e2 = Return (err2, unit2) \<and>
            same_outcome err1 err2 \<and> same_keys unit1 unit2 \<and> agree_at unit1 unit2 k) \<and>
         (same_outcome (fst (RegisterNew_Model unit e1)) (fst (RegisterNew_Model unit e2)) \<and>
          same_keys (snd (RegisterNew_Model unit e1)) (snd (RegisterNew_Model unit e2)) \<and>
          agree_at (snd (RegisterNew_Model unit e1)) (snd (RegisterNew_Model unit e2)) k) \<and>
         (same_outcome (fst (RegisterDirty_Model unit e1)) (fst (RegisterDirty_Model unit e2)) \<and>
          same_keys (snd (RegisterDirty_Model unit e1)) (snd (RegisterDirty_Model unit e2)) \<and>
          agree_at (snd (RegisterDirty_Model unit e1)) (snd (RegisterDirty_Model unit e2)) k) \<and>
         (same_outcome (fst (RegisterRemoved unit e1)) (fst (RegisterRemoved unit e2)) \<and>
          same_keys (snd (RegisterRemoved unit e1)) (snd (RegisterRemoved unit e2)) \<and>
          agree_at (snd (RegisterRemoved unit e1)) (snd (RegisterRemoved unit e2)) k)"
proof (intro conjI)
  show "\<exists>err1 unit1 err2 unit2.
            RegisterNew unit e1 = Return (err1, unit1) \<and>
            RegisterNew unit e2 = Return (err2, unit2) \<and>
            same_outcome err1 err2 \<and> same_keys unit1 unit2 \<and> agree_at unit1 unit2 k"
    using assms by (simp add: RegisterNew_eq same_keys_def agree_at_def)
  show "\<exists>err1 unit1 err2 unit2.
            RegisterDirty unit e1 = Return (err1, unit1) \<and>
            RegisterDirty unit e2 = Return (err2, unit2) \<and>
            same_outcome err1 err2 \<and> same_keys unit1 unit2 \<and> agree_at unit1 unit2 k"
    using assms by (simp add: RegisterDirty_eq same_keys_def agree_at_def)
  show "\<exists>err1 unit1 err2 unit2.
            RegisterDeleted unit e1 = Return (err1, unit1) \<and>
            RegisterDeleted unit e2 = Return (err2, unit2) \<and>
            same_outcome err1 err2 \<and> same_keys unit1 unit2 \<and> agree_at unit1 unit2 k"
    using assms by (simp add: RegisterDeleted_eq same_keys_def agree_at_def)
  show "same_outcome (fst (RegisterNew_Model unit e1)) (fst (RegisterNew_Model unit e2))"
    using assms by (simp add: RegisterNew_Model_def)
  show "same_keys (snd (RegisterNew_Model unit e1)) (snd (RegisterNew_Model unit e2))"
    using assms by (simp add: RegisterNew_Model_def same_keys_def)
  show "agree_at (snd (RegisterNew_Model unit e1)) (snd (RegisterNew_Model unit e2)) k"
    using assms by (simp add: RegisterNew_Model_def agree_at_def)
  show "same_outcome (fst (RegisterDirty_Model unit e1)) (fst (RegisterDirty_Model unit e2))"
    using assms by (simp add: RegisterDirty_Model_def)
  show "same_keys (snd (RegisterDirty_Model unit e1)) (snd (RegisterDirty_Model unit e2))"
    using assms by (simp add: RegisterDirty_Model_def same_keys_def)
  show "agree_at (snd (RegisterDirty_Model unit e1)) (snd (RegisterDirty_Model unit e2)) k"
    using assms by (simp add: RegisterDirty_Model_def agree_at_def)
  show "same_outcome (fst (RegisterRemoved unit e1)) (fst (RegisterRemoved unit e2))"
    using assms by (simp add: RegisterRemoved_def Let_def)
  show "same_keys (snd (RegisterRemoved unit e1)) (snd (RegisterRemoved unit e2))"
    using assms by (simp add: RegisterRemoved_def same_keys_def Let_def)
  show "agree_at (snd (RegisterRemoved unit e1)) (snd (RegisterRemoved unit e2)) k"
    using assms by (simp add: RegisterRemoved_def agree_at_def Let_def)
qed

text \<open>
  The theorem at two different references with identity \<open>5\<close> and the key \<open>7\<close>.
\<close>

theorem outcome_by_identity_only_witness:
  "GetID (Entity 1 ''5'') = GetID (Entity 2 ''5'') \<and> ''7'' \<noteq> GetID (Entity 1 ''5'') \<and>
   (\<exists>err1 unit1 err2 unit2.
      RegisterDirty \<lparr>newObjects = Map.empty, dirtyObjects = [''7'' \<mapsto> Entity 3 ''7''],
                     deletedObjects = Map.empty\<rparr> (Entity 1 ''5'') = Return (err1, unit1) \<and>
      RegisterDirty \<lparr>newObjects = Map.empty, dirtyObjects = [''7'' \<mapsto> Entity 3 ''7''],
                     deletedObjects = Map.empty\<rparr> (Entity 2 ''5'') = Return (err2, unit2) \<and>
      same_outcome err1 err2 \<and> same_keys unit1 unit2 \<and> agree_at unit1 unit2 ''7'') \<and>
   same_outcome
     (fst (RegisterNew_Model \<lparr>newObjects = Map.empty, dirtyObjects = [''7'' \<mapsto> Entity 3 ''7''],
                             deletedObjects = Map.empty\<rparr> (Entity 1 ''5'')))
     (fst (RegisterNew_Model \<lparr>newObjects = Map.empty, dirtyObjects = [''7'' \<mapsto> Entity 3 ''7''],
                             deletedObjects = Map.empty\<rparr> (Entity 2 ''5''))) \<and>
   same_keys
     (snd (RegisterRemoved \<lparr>newObjects = Map.empty, dirtyObjects = [''7'' \<mapsto> Entity 3 ''7''],
                           deletedObjects = Map.empty\<rparr> (Entity 1 ''5'')))
     (snd (RegisterRemoved \<lparr>newObjects = Map.empty, dirtyObjects = [''7'' \<mapsto> Entity 3 ''7''],
                           deletedObjects = Map.empty\<rparr> (Entity 2 ''5'')))"
proof -
  have same: "GetID (Entity 1 ''5'') = GetID (Entity 2 ''5'')"
    and other: "''7'' \<noteq> GetID (Entity 1 ''5'')"
    by simp_all
  from same other
    outcome_by_identity_only [OF same other,
      of "\<lparr>newObjects = Map.empty, dirtyObjects = [''7'' \<mapsto> Entity 3 ''7''],
          deletedObjects = Map.empty\<rparr>"]
  show ?thesis by blast
qed

end
